theory Spec2Isabelle
  imports Main "HOL-Library.AList"
begin

section \<open>Strings and the host's regular expressions\<close>

text \<open>
  Strings are lists of characters. The quotes and the two line terminators get a name.
\<close>

abbreviation SQ :: char where "SQ \<equiv> CHR 0x27"
abbreviation DQ :: char where "DQ \<equiv> CHR 0x22"
abbreviation LF :: char where "LF \<equiv> CHR 0x0A"
abbreviation CR :: char where "CR \<equiv> CHR 0x0D"

text \<open>
  Case folding of the \<open>i\<close> flag: only the ASCII letters have a partner, every other
  character is compared as it is.
\<close>

definition lower_of :: "char \<Rightarrow> char" where
  "lower_of c = (case map_of (zip ''ABCDEFGHIJKLMNOPQRSTUVWXYZ'' ''abcdefghijklmnopqrstuvwxyz'') c of
     None \<Rightarrow> c | Some d \<Rightarrow> d)"

definition ci_eq :: "char \<Rightarrow> char \<Rightarrow> bool" where
  "ci_eq a b = (lower_of a = lower_of b)"

text \<open>
  Character classes of the patterns in the source: \<open>[\s\S]\<close>, \<open>.\<close>, \<open>\s\<close>,
  an enumerated class and a negated enumerated class.
\<close>

datatype cls = CAny | CDot | CSpace | COf string | CNot string

definition is_line_terminator :: "char \<Rightarrow> bool" where
  "is_line_terminator c = (c = LF \<or> c = CR)"

definition is_space :: "char \<Rightarrow> bool" where
  "is_space c = (c \<in> set [CHR 0x09, CHR 0x0A, CHR 0x0B, CHR 0x0C, CHR 0x0D, CHR 0x20, CHR 0xA0])"

fun cls_mem :: "cls \<Rightarrow> char \<Rightarrow> bool" where
  "cls_mem CAny c = True"
| "cls_mem CDot c = (\<not> is_line_terminator c)"
| "cls_mem CSpace c = is_space c"
| "cls_mem (COf cs) c = (c \<in> set cs)"
| "cls_mem (CNot cs) c = (c \<notin> set cs)"

text \<open>
  The patterns. \<open>Lit\<close> is a literal, \<open>LitI\<close> a literal under the \<open>i\<close> flag,
  \<open>Star\<close> and \<open>StarL\<close> the greedy and the lazy repetition of one character class,
  \<open>Opt\<close> the greedy \<open>?\<close>, \<open>Many\<close> the greedy \<open>+\<close> of a group, \<open>Grp\<close> a
  capturing group with its number, \<open>Back\<close> a back reference and \<open>Eos\<close> the end of
  the input (\<open>$\<close> without the \<open>m\<close> flag).
\<close>

datatype rx =
    Lit string
  | LitI string
  | Cl cls
  | Seq rx rx
  | Alt rx rx
  | Star cls
  | StarL cls
  | Opt rx
  | Many rx
  | Grp nat rx
  | Back nat
  | Eos

type_synonym caps = "(nat \<times> string) list"
type_synonym cont = "string \<Rightarrow> caps \<Rightarrow> (string \<times> caps) option"

fun strip_lit :: "(char \<Rightarrow> char \<Rightarrow> bool) \<Rightarrow> string \<Rightarrow> string \<Rightarrow> string option" where
  "strip_lit eq [] s = Some s"
| "strip_lit eq (p # ps) [] = None"
| "strip_lit eq (p # ps) (x # xs) = (if eq p x then strip_lit eq ps xs else None)"

definition cap :: "caps \<Rightarrow> nat \<Rightarrow> string" where
  "cap c n = (case map_of c n of None \<Rightarrow> [] | Some s \<Rightarrow> s)"

text \<open>
  Backtracking in the order of the host: a greedy repetition tries the longer match first,
  a lazy one the shorter; the continuation \<open>k\<close> is the rest of the pattern.
\<close>

primrec star_greedy :: "cls \<Rightarrow> cont \<Rightarrow> cont" where
  "star_greedy cl k [] c = k [] c"
| "star_greedy cl k (x # xs) c =
     (if cls_mem cl x
      then (case star_greedy cl k xs c of Some r \<Rightarrow> Some r | None \<Rightarrow> k (x # xs) c)
      else k (x # xs) c)"

primrec star_lazy :: "cls \<Rightarrow> cont \<Rightarrow> cont" where
  "star_lazy cl k [] c = k [] c"
| "star_lazy cl k (x # xs) c =
     (case k (x # xs) c of
        Some r \<Rightarrow> Some r
      | None \<Rightarrow> if cls_mem cl x then star_lazy cl k xs c else None)"

text \<open>
  \<open>many n body k\<close>: the body once, then greedily up to \<open>n\<close> more times, each further
  iteration only from a position the previous one has moved (the host rejects an empty iteration).
  Called with \<open>n\<close> the length of the input, which no sequence of non-empty iterations exceeds.
\<close>

primrec many :: "nat \<Rightarrow> (cont \<Rightarrow> cont) \<Rightarrow> cont \<Rightarrow> cont" where
  "many 0 body k s c = body k s c"
| "many (Suc n) body k s c =
     body (\<lambda>s' c'. if length s' < length s
                    then (case many n body k s' c' of Some r \<Rightarrow> Some r | None \<Rightarrow> k s' c')
                    else k s' c') s c"

primrec rmatch :: "rx \<Rightarrow> cont \<Rightarrow> cont" where
  "rmatch (Lit l) k s c = (case strip_lit (=) l s of None \<Rightarrow> None | Some s' \<Rightarrow> k s' c)"
| "rmatch (LitI l) k s c = (case strip_lit ci_eq l s of None \<Rightarrow> None | Some s' \<Rightarrow> k s' c)"
| "rmatch (Cl cl) k s c = (case s of [] \<Rightarrow> None | x # xs \<Rightarrow> if cls_mem cl x then k xs c else None)"
| "rmatch (Seq a b) k s c = rmatch a (rmatch b k) s c"
| "rmatch (Alt a b) k s c = (case rmatch a k s c of Some r \<Rightarrow> Some r | None \<Rightarrow> rmatch b k s c)"
| "rmatch (Star cl) k s c = star_greedy cl k s c"
| "rmatch (StarL cl) k s c = star_lazy cl k s c"
| "rmatch (Opt a) k s c = (case rmatch a k s c of Some r \<Rightarrow> Some r | None \<Rightarrow> k s c)"
| "rmatch (Many a) k s c = many (length s) (rmatch a) k s c"
| "rmatch (Grp n a) k s c =
     rmatch a (\<lambda>s' c'. k s' (AList.update n (take (length s - length s') s) c')) s c"
| "rmatch (Back n) k s c = (case strip_lit (=) (cap c n) s of None \<Rightarrow> None | Some s' \<Rightarrow> k s' c)"
| "rmatch Eos k s c = (if s = [] then k s c else None)"

text \<open>A sequence of patterns, written in the order of the source.\<close>

definition seqs :: "rx list \<Rightarrow> rx" where
  "seqs rs = foldr Seq rs (Lit [])"

text \<open>\<open>match_at r s\<close>: the length and the groups of the match of \<open>r\<close> at the head of \<open>s\<close>.\<close>

definition match_at :: "rx \<Rightarrow> string \<Rightarrow> (nat \<times> caps) option" where
  "match_at r s = (case rmatch r (\<lambda>s' c'. Some (s', c')) s [] of
     None \<Rightarrow> None | Some (s', c') \<Rightarrow> Some (length s - length s', c'))"

text \<open>\<open>search r s\<close>: offset, length and groups of the leftmost match of \<open>r\<close> in \<open>s\<close>.\<close>

primrec search :: "rx \<Rightarrow> string \<Rightarrow> (nat \<times> nat \<times> caps) option" where
  "search r [] = (case match_at r [] of None \<Rightarrow> None | Some (n, c) \<Rightarrow> Some (0, n, c))"
| "search r (x # xs) = (case match_at r (x # xs) of
     Some (n, c) \<Rightarrow> Some (0, n, c)
   | None \<Rightarrow> (case search r xs of None \<Rightarrow> None | Some (i, n, c) \<Rightarrow> Some (Suc i, n, c)))"

text \<open>\<open>RegExp.prototype.test\<close> of a pattern without the \<open>g\<close> flag.\<close>

definition test :: "rx \<Rightarrow> string \<Rightarrow> bool" where
  "test r s = (search r s \<noteq> None)"

text \<open>\<open>String.prototype.replace\<close> with a pattern without the \<open>g\<close> flag and a constant
  replacement: the leftmost match only.\<close>

definition replace_first :: "rx \<Rightarrow> string \<Rightarrow> string \<Rightarrow> string" where
  "replace_first r rep s = (case search r s of
     None \<Rightarrow> s
   | Some (i, n, c) \<Rightarrow> take i s @ rep @ drop (i + n) s)"

text \<open>
  \<open>RegExp.prototype.exec\<close> of a pattern with the \<open>g\<close> flag: the search starts at
  \<open>lastIndex\<close>; the result is the matched text with its groups, and the new \<open>lastIndex\<close>
  (the end of the match, or 0 after a failure).
\<close>

definition exec :: "rx \<Rightarrow> string \<Rightarrow> nat \<Rightarrow> (string \<times> caps) option \<times> nat" where
  "exec r s lastIndex =
    (if length s < lastIndex then (None, 0)
     else (case search r (drop lastIndex s) of
             None \<Rightarrow> (None, 0)
           | Some (i, n, c) \<Rightarrow> (Some (take n (drop (lastIndex + i) s), c), lastIndex + i + n)))"

text \<open>
  \<open>String.prototype.replace\<close> with a pattern with the \<open>g\<close> flag: every match from left
  to right, the search going on behind the match (one character further after an empty match).
  \<open>replace_all\<close> takes a constant replacement; \<open>replace_with\<close> takes a callback, called
  match after match on a state it may change, which may fail to return.
\<close>

function replace_with ::
  "rx \<Rightarrow> (string \<Rightarrow> 'st \<Rightarrow> (string \<times> 'st) option) \<Rightarrow> string \<Rightarrow> 'st \<Rightarrow> (string \<times> 'st) option" where
  "replace_with r f s st =
    (case search r s of
       None \<Rightarrow> Some (s, st)
     | Some (i, n, c) \<Rightarrow>
        (case f (take n (drop i s)) st of
           None \<Rightarrow> None
         | Some (rep, st1) \<Rightarrow>
            (if n = 0 \<or> s = []
             then (case drop i s of
                     [] \<Rightarrow> Some (take i s @ rep, st1)
                   | x # xs \<Rightarrow>
                      (case replace_with r f xs st1 of
                         None \<Rightarrow> None
                       | Some (rest, st2) \<Rightarrow> Some (take i s @ rep @ x # rest, st2)))
             else (case replace_with r f (drop (i + n) s) st1 of
                     None \<Rightarrow> None
                   | Some (rest, st2) \<Rightarrow> Some (take i s @ rep @ rest, st2)))))"
  by pat_completeness auto

termination
proof (relation "measure (\<lambda>(r, f, s, st). length s)", goal_cases)
  case 1
  show ?case by simp
next
  case (2 r f s st x2 i y n c x2a rep st1 x xs)
  have "length (drop i s) \<le> length s" by simp
  with 2 show ?case by simp
next
  case (3 r f s st x2 i y n c x2a rep st1)
  then show ?case by (cases s) auto
qed

declare replace_with.simps [simp del]

definition replace_all :: "rx \<Rightarrow> string \<Rightarrow> string \<Rightarrow> string" where
  "replace_all r rep s =
    (case replace_with r (\<lambda>m st. Some (rep, st)) s () of None \<Rightarrow> s | Some (t, u) \<Rightarrow> t)"

text \<open>
  The loop \<open>while (true) { m = r.exec(s); if (m === null) break; result.push(m[0]) }\<close>.
  It does not return when the pattern keeps matching the empty string.
\<close>

partial_function (option) exec_loop :: "rx \<Rightarrow> string \<Rightarrow> nat \<Rightarrow> string list option" where
  "exec_loop r s lastIndex =
    (case exec r s lastIndex of
       (None, li) \<Rightarrow> Some []
     | (Some (m, c), li) \<Rightarrow> Option.bind (exec_loop r s li) (\<lambda>ms. Some (m # ms)))"

declare exec_loop.simps [code]

section \<open>The values of optional string parameters\<close>

text \<open>
  The values the code meets where it expects a string: \<open>undefined\<close>, \<open>null\<close>, a
  string, or an object or function (such as a member every object inherits), which is known
  here by the text it converts to.
\<close>

datatype jsval = Undefined | Null | Str string | Obj string

fun truthy :: "jsval \<Rightarrow> bool" where
  "truthy (Str s) = (s \<noteq> [])"
| "truthy (Obj t) = True"
| "truthy v = False"

text \<open>\<open>v == null\<close>\<close>

fun nullish :: "jsval \<Rightarrow> bool" where
  "nullish Undefined = True"
| "nullish Null = True"
| "nullish v = False"

text \<open>A value inside a template literal.\<close>

fun to_text :: "jsval \<Rightarrow> string" where
  "to_text Undefined = ''undefined''"
| "to_text Null = ''null''"
| "to_text (Str s) = s"
| "to_text (Obj t) = t"

text \<open>\<open>v || ""\<close>\<close>

definition or_empty :: "jsval \<Rightarrow> jsval" where
  "or_empty v = (if truthy v then v else Str [])"

section \<open>dataurl: the cache key\<close>

text \<open>\<open>/\?.*/\<close>, \<open>/ttf|otf|eot|woff2?/i\<close> and \<open>/.*\//\<close>.\<close>

definition queryRegex :: rx where
  "queryRegex = Seq (Lit ''?'') (Star CDot)"

definition fontRegex :: rx where
  "fontRegex = Alt (LitI ''ttf'') (Alt (LitI ''otf'') (Alt (LitI ''eot'')
     (Seq (LitI ''woff'') (Opt (LitI ''2'')))))"

definition dirRegex :: rx where
  "dirRegex = Seq (Star CDot) (Lit ''/'')"

definition getCacheKey :: "string \<Rightarrow> jsval \<Rightarrow> bool \<Rightarrow> string" where
  "getCacheKey url contentType includeQueryParams =
    (let key0 = replace_first queryRegex [] url;
         key1 = (if includeQueryParams then url else key0);
         key2 = (if test fontRegex key1 then replace_first dirRegex [] key1 else key1)
     in if truthy contentType then ''['' @ to_text contentType @ '']'' @ key2 else key2)"


section \<open>Numbers as text\<close>

text \<open>\<open>Number.prototype.toString(radix)\<close> on a non-negative integer; \<open>dec\<close> is radix 10,
  the form a number takes inside a template literal.\<close>

definition digit_of :: "nat \<Rightarrow> char" where
  "digit_of d = ''0123456789abcdefghijklmnopqrstuvwxyz'' ! d"

fun to_radix :: "nat \<Rightarrow> nat \<Rightarrow> string" where
  "to_radix b n = (if n < b \<or> b < 2 then [digit_of n] else to_radix b (n div b) @ [digit_of (n mod b)])"

declare to_radix.simps [simp del]

definition dec :: "nat \<Rightarrow> string" where
  "dec n = to_radix 10 n"

section \<open>The nodes of the document\<close>

text \<open>
  A node as far as the code observes it. \<open>iface\<close> is the interface that
  \<open>isInstanceOfElement\<close> finds (\<open>TextNode\<close> stands for every node that is not an
  element); a \<open>css_style\<close> is a style declaration with its serialised text and its
  properties (name, value, priority) in order. The three computed styles are what
  \<open>window.getComputedStyle\<close> answers for the node and for its two pseudo-elements.
\<close>

datatype iface =
    HTMLCanvasElement | HTMLVideoElement | HTMLIFrameElement | HTMLTextAreaElement
  | HTMLInputElement | HTMLSelectElement | HTMLImageElement | HTMLStyleElement
  | SVGElement | OtherElement | TextNode

record css_style =
  cssText :: string
  properties :: "(string \<times> string \<times> string) list"

record node_data =
  iface :: iface
  tagName :: "string option"
  attributes :: "(string \<times> string) list"
  className :: string
  classNameThrows :: bool
  style :: "css_style option"
  nodeValue :: string
  liveValue :: string
  computed :: css_style
  computedBefore :: css_style
  computedAfter :: css_style
  canvasDataURL :: string
  currentSrc :: string
  videoFrame :: string
  poster :: string

datatype node = Node
  (data: node_data)
  (childNodes: "node list")
  (shadowRoot: "node list option")
  (assignedNodes: "node list option")
  (contentBody: "node option")

section \<open>Options, host and process-wide state\<close>

record options =
  filterFn :: "(node \<Rightarrow> bool) option"
  fontEmbedCSS :: jsval
  skipFonts :: bool
  preferredFontFormat :: jsval
  includeQueryParams :: bool
  cacheBust :: bool
  imagePlaceholder :: jsval

text \<open>The options object \<open>{}\<close>: nothing is configured.\<close>

definition default_options :: options where
  "default_options = \<lparr>filterFn = None, fontEmbedCSS = Undefined, skipFonts = False,
     preferredFontFormat = Undefined, includeQueryParams = False, cacheBust = False,
     imagePlaceholder = Undefined\<rparr>"

text \<open>What the code can catch: a thrown string, an error object with its message, or the
  event a reader or an image rejects with (it has no message).\<close>

datatype js_error = ErrString string | ErrObject string | ErrEvent

record response =
  status :: nat
  res_url :: string
  contentTypeHeader :: jsval
  readResult :: "js_error + string"

text \<open>
  The state of the process: the resource cache of dataurl (a plain object, here its own
  entries), the counter of \<open>uuid\<close>, and what the host has seen: the URLs fetched, in the
  order of the requests, and the warnings logged.
\<close>

record world =
  cache :: "(string \<times> jsval) list"
  counter :: nat
  requests :: "string list"
  warnings :: "string list"

text \<open>
  A number of the host as far as \<open>cloneCSSStyle\<close> meets one: not a number, an infinity, or
  the decimal \<open>Dec m k\<close> that stands for \<open>m / 10^k\<close> (every finite double is such a
  decimal).
\<close>

datatype jsnum = NaN | PosInf | NegInf | Dec int nat

text \<open>
  The host. \<open>fetch h n url\<close> is the answer to the request for \<open>url\<close> that is made when
  \<open>n\<close> requests have been made before it (a rejection, or a response whose body the reader
  turns into a data URL or fails on): the same URL may be answered differently at different
  times. \<open>now h n\<close> is the clock at that moment. \<open>randomDraw h n\<close> is the value of
  \<open>(Math.random() * 36 ** 4) << 0\<close> at the call that takes the counter to \<open>n\<close>.
  \<open>imageError\<close> is the error with which an image fails to load, \<open>webFontCSS\<close> the
  web-font discovery \<open>getWebFontCSS\<close> on the document of a node, and \<open>processedDefs\<close> the
  loop of \<open>ensureSVGSymbols\<close> over the \<open>use\<close> elements of a clone (its look-ups in the
  document and the conversions of the definitions it finds), which yields the values of
  \<open>processedDefs\<close>.

  The other fields are what the engine and the document decide: \<open>memberText h name\<close> is
  the text the member \<open>name\<close> of \<open>Object.prototype\<close> converts to; \<open>validValue h name v\<close>
  says whether a style declaration accepts the value \<open>v\<close> for the property \<open>name\<close>
  (\<open>setProperty\<close> ignores a value it does not accept); \<open>doubleOf h s\<close> is the number
  \<open>parseFloat\<close> reads from a text whose digits do not fit a double exactly, and
  \<open>reducedText h n\<close> the text of \<open>n - 0.1\<close> for an integer \<open>n\<close> of fifteen digits or
  more; \<open>parseFragment h t\<close> is the list of children the assignment of the text \<open>t\<close> to
  \<open>innerHTML\<close> gives a text area.
\<close>

record host =
  fetch :: "nat \<Rightarrow> string \<Rightarrow> js_error + response"
  now :: "nat \<Rightarrow> nat"
  randomDraw :: "nat \<Rightarrow> nat"
  imageError :: "string \<Rightarrow> js_error option"
  webFontCSS :: "node \<Rightarrow> options \<Rightarrow> world \<Rightarrow> (js_error + string) \<times> world"
  processedDefs :: "node \<Rightarrow> options \<Rightarrow> world \<Rightarrow> (js_error + node list) \<times> world"
  memberText :: "string \<Rightarrow> string"
  validValue :: "string \<Rightarrow> string \<Rightarrow> bool"
  doubleOf :: "string \<Rightarrow> jsnum"
  reducedText :: "int \<Rightarrow> string"
  parseFragment :: "string \<Rightarrow> node list"

section \<open>Members of plain objects\<close>

text \<open>
  The cache of dataurl and the table of mimes are plain objects (\<open>{}\<close>), so a look-up
  \<open>obj[key]\<close> also finds what every object inherits from \<open>Object.prototype\<close>: for one of
  the names below that is not an own entry the result is that member, a function or an object,
  and not \<open>undefined\<close>. \<open>__proto__\<close> is an accessor that an own entry cannot shadow.
\<close>

definition objectPrototype :: "string list" where
  "objectPrototype = [''constructor'', ''__defineGetter__'', ''__defineSetter__'',
     ''hasOwnProperty'', ''__lookupGetter__'', ''__lookupSetter__'', ''isPrototypeOf'',
     ''propertyIsEnumerable'', ''toString'', ''valueOf'', ''__proto__'', ''toLocaleString'']"

definition lookupMember :: "host \<Rightarrow> (string \<times> jsval) list \<Rightarrow> string \<Rightarrow> jsval" where
  "lookupMember h entries key =
    (if key = ''__proto__'' then Obj (memberText h key)
     else (case map_of entries key of
             Some v \<Rightarrow> v
           | None \<Rightarrow> if key \<in> set objectPrototype then Obj (memberText h key) else Undefined))"

section \<open>dataurl: fetching a resource as a data URL\<close>

primrec split_on :: "char \<Rightarrow> string \<Rightarrow> string list" where
  "split_on d [] = [[]]"
| "split_on d (x # xs) =
     (if x = d then [] # split_on d xs
      else (case split_on d xs of [] \<Rightarrow> [[x]] | p # ps \<Rightarrow> (x # p) # ps))"

definition index_or_undefined :: "string list \<Rightarrow> nat \<Rightarrow> jsval" where
  "index_or_undefined xs i = (if i < length xs then Str (xs ! i) else Undefined)"

definition getContentFromDataUrl :: "string \<Rightarrow> jsval" where
  "getContentFromDataUrl dataURL = index_or_undefined (split_on CHR '','' dataURL) 1"

definition makeDataUrl :: "jsval \<Rightarrow> jsval \<Rightarrow> string" where
  "makeDataUrl content mimeType = ''data:'' @ to_text mimeType @ '';base64,'' @ to_text content"

text \<open>
  \<open>fetchAsDataURL\<close>: the request is recorded; a rejected fetch, a 404 status and a failed
  read are the three ways to fail, otherwise \<open>process\<close> gets the response and the result.
  \<open>fetchResult h n\<close> is what the promise of request number \<open>n\<close> settles to.
\<close>

definition fetchResult ::
  "host \<Rightarrow> nat \<Rightarrow> string \<Rightarrow> (response \<Rightarrow> string \<Rightarrow> js_error + 'a) \<Rightarrow> js_error + 'a" where
  "fetchResult h n url process =
    (case fetch h n url of
       Inl e \<Rightarrow> Inl e
     | Inr res \<Rightarrow>
         if status res = 404
         then Inl (ErrObject (''Resource '' @ [DQ] @ res_url res @ [DQ] @ '' not found''))
         else (case readResult res of
                 Inl e \<Rightarrow> Inl e
               | Inr result \<Rightarrow> process res result))"

definition fetchAsDataURL ::
  "host \<Rightarrow> string \<Rightarrow> (response \<Rightarrow> string \<Rightarrow> js_error + 'a) \<Rightarrow> world \<Rightarrow> (js_error + 'a) \<times> world" where
  "fetchAsDataURL h url process w =
     (fetchResult h (length (requests w)) url process, w\<lparr>requests := requests w @ [url]\<rparr>)"

text \<open>The message the catch block of \<open>resourceToDataURL\<close> logs, if any.\<close>

fun warning_of :: "string \<Rightarrow> js_error \<Rightarrow> string option" where
  "warning_of url (ErrString s) = Some (if s = [] then ''Failed to fetch resource: '' @ url else s)"
| "warning_of url (ErrObject m) = (if m = [] then None else Some m)"
| "warning_of url ErrEvent = None"

definition log_warning :: "string option \<Rightarrow> world \<Rightarrow> world" where
  "log_warning m w = (case m of None \<Rightarrow> w | Some msg \<Rightarrow> w\<lparr>warnings := warnings w @ [msg]\<rparr>)"

text \<open>The URL that is requested: with \<open>cacheBust\<close> the time of the call is appended.\<close>

definition bustedUrl :: "host \<Rightarrow> options \<Rightarrow> nat \<Rightarrow> string \<Rightarrow> string" where
  "bustedUrl h opts n resourceUrl =
    (if cacheBust opts
     then resourceUrl @ (if test (Lit ''?'') resourceUrl then ''&'' else ''?'') @ dec (now h n)
     else resourceUrl)"

text \<open>
  \<open>resourceToDataURL\<close>, a call that runs to its end with no other call in between. The
  look-up \<open>cache[cacheKey] != null\<close> is the look-up in a plain object; on a miss the
  resource is fetched, the data URL or the fallback \<open>imagePlaceholder || ""\<close> is stored
  under the key (a miss is never on \<open>__proto__\<close>, so the assignment makes an own entry) and
  returned.
\<close>

definition resourceToDataURL ::
  "host \<Rightarrow> string \<Rightarrow> jsval \<Rightarrow> options \<Rightarrow> world \<Rightarrow> jsval \<times> world" where
  "resourceToDataURL h resourceUrl contentType opts w =
    (let cacheKey = getCacheKey resourceUrl contentType (includeQueryParams opts) in
     if \<not> nullish (lookupMember h (cache w) cacheKey) then (lookupMember h (cache w) cacheKey, w)
     else
        (let url = bustedUrl h opts (length (requests w)) resourceUrl;
             (r, w1) = fetchAsDataURL h url
               (\<lambda>res result. Inr (getContentFromDataUrl result,
                   if truthy contentType then contentType
                   else or_empty (contentTypeHeader res))) w;
             (dataURL, w2) = (case r of
                 Inr (content, ct) \<Rightarrow> (Str (makeDataUrl content ct), w1)
               | Inl e \<Rightarrow> (or_empty (imagePlaceholder opts), log_warning (warning_of url e) w1))
         in (dataURL, w2\<lparr>cache := AList.update cacheKey dataURL (cache w2)\<rparr>)))"

text \<open>
  The two halves of \<open>resourceToDataURL\<close> around its \<open>await\<close>. The first runs when the
  call is made: the look-up in the cache and, on a miss, the request; the call then waits with
  its cache key, the number and the URL of its request and its content type. The second runs
  when the host has answered: the data URL or the fallback is built and stored under the key,
  whatever the cache holds there by then.
\<close>

datatype call = Returned jsval | Awaiting string nat string jsval

definition resourceToDataURL_call ::
  "host \<Rightarrow> string \<Rightarrow> jsval \<Rightarrow> options \<Rightarrow> world \<Rightarrow> call \<times> world" where
  "resourceToDataURL_call h resourceUrl contentType opts w =
    (let cacheKey = getCacheKey resourceUrl contentType (includeQueryParams opts) in
     if \<not> nullish (lookupMember h (cache w) cacheKey)
     then (Returned (lookupMember h (cache w) cacheKey), w)
     else (let url = bustedUrl h opts (length (requests w)) resourceUrl
           in (Awaiting cacheKey (length (requests w)) url contentType,
               w\<lparr>requests := requests w @ [url]\<rparr>)))"

definition resourceToDataURL_resume :: "host \<Rightarrow> options \<Rightarrow> call \<Rightarrow> world \<Rightarrow> jsval \<times> world" where
  "resourceToDataURL_resume h opts c w =
    (case c of
       Returned v \<Rightarrow> (v, w)
     | Awaiting cacheKey n url contentType \<Rightarrow>
        (let r = fetchResult h n url
               (\<lambda>res result. Inr (getContentFromDataUrl result,
                   if truthy contentType then contentType
                   else or_empty (contentTypeHeader res)));
             (dataURL, w2) = (case r of
                 Inr (content, ct) \<Rightarrow> (Str (makeDataUrl content ct), w)
               | Inl e \<Rightarrow> (or_empty (imagePlaceholder opts), log_warning (warning_of url e) w))
         in (dataURL, w2\<lparr>cache := AList.update cacheKey dataURL (cache w2)\<rparr>)))"

text \<open>
  Two calls that overlap: both are made before the host has answered either, as for two
  sibling nodes, which \<open>embedChildren\<close> starts together (\<open>Promise.all\<close> over the
  children); then the first is answered, then the second.
\<close>

definition overlapping_calls ::
  "host \<Rightarrow> string \<Rightarrow> jsval \<Rightarrow> options \<Rightarrow> string \<Rightarrow> jsval \<Rightarrow> options \<Rightarrow> world
     \<Rightarrow> (jsval \<times> jsval) \<times> world" where
  "overlapping_calls h url1 contentType1 opts1 url2 contentType2 opts2 w =
    (let (c1, w1) = resourceToDataURL_call h url1 contentType1 opts1 w;
         (c2, w2) = resourceToDataURL_call h url2 contentType2 opts2 w1;
         (r1, w3) = resourceToDataURL_resume h opts1 c1 w2;
         (r2, w4) = resourceToDataURL_resume h opts2 c2 w3
     in ((r1, r2), w4))"

text \<open>Calls of \<open>resourceToDataURL\<close> (URL, content type, options) that run one after the
  other, each to its end.\<close>

fun run_calls :: "host \<Rightarrow> (string \<times> jsval \<times> options) list \<Rightarrow> world \<Rightarrow> world" where
  "run_calls h [] w = w"
| "run_calls h ((url, ct, opts) # cs) w = run_calls h cs (snd (resourceToDataURL h url ct opts w))"

section \<open>embed-webfonts: splitting a style sheet into rules\<close>

definition commentsRegex :: rx where
  "commentsRegex = Grp 1 (seqs [Lit ''/*'', StarL CAny, Lit ''*/''])"

definition keyframesRegex :: rx where
  "keyframesRegex =
     Grp 1 (seqs [Grp 2 (seqs [Lit ''@'', StarL CDot, LitI ''keyframes '', StarL CAny]),
                  Lit ''{'',
                  Grp 3 (seqs [StarL CAny, Lit ''}'', StarL CSpace]),
                  Lit ''}''])"

definition importRegex :: rx where
  "importRegex = seqs [LitI ''@import'', StarL CAny, LitI ''url('', Star (CNot '')''), Lit '')'',
                       StarL CAny, Lit '';'']"

definition unifiedRegex :: rx where
  "unifiedRegex =
     Alt (Grp 1 (seqs [Grp 2 (seqs [StarL CSpace,
                                    Opt (seqs [Lit ''/*'', StarL CAny, Lit ''*/'']),
                                    StarL CSpace, LitI ''@media'', StarL CAny]),
                       Lit ''{'', Grp 3 (StarL CAny), Lit ''}'', StarL CSpace, Lit ''}'']))
         (Grp 4 (seqs [Grp 5 (StarL CAny), Lit ''{'', Grp 6 (StarL CAny), Lit ''}'']))"

text \<open>
  The second loop of \<open>parseCSS\<close>, on the two \<open>lastIndex\<close> values: the import pattern is
  tried first, the unified pattern only when it fails, and the pattern that matched moves the
  other one's \<open>lastIndex\<close> to its own.
\<close>

partial_function (option) rules_loop :: "string \<Rightarrow> nat \<Rightarrow> nat \<Rightarrow> string list option" where
  "rules_loop s importLast unifiedLast =
    (case exec importRegex s importLast of
       (Some (m, c), il) \<Rightarrow> Option.bind (rules_loop s il il) (\<lambda>ms. Some (m # ms))
     | (None, il) \<Rightarrow>
        (case exec unifiedRegex s unifiedLast of
           (None, ul) \<Rightarrow> Some []
         | (Some (m, c), ul) \<Rightarrow> Option.bind (rules_loop s ul ul) (\<lambda>ms. Some (m # ms))))"

declare rules_loop.simps [code]

text \<open>\<open>parseCSS\<close>; the argument \<open>None\<close> is a null or undefined source, the result
  \<open>None\<close> a call that does not return.\<close>

definition parseCSS :: "string option \<Rightarrow> string list option" where
  "parseCSS source =
    (case source of
       None \<Rightarrow> Some []
     | Some src \<Rightarrow>
        (let cssText = replace_all commentsRegex [] src in
         case exec_loop keyframesRegex cssText 0 of
           None \<Rightarrow> None
         | Some keyframes \<Rightarrow>
            (case rules_loop (replace_all keyframesRegex [] cssText) 0 0 of
               None \<Rightarrow> None
             | Some rules \<Rightarrow> Some (keyframes @ rules))))"


section \<open>embed-resources: the preferred font format\<close>

definition URL_WITH_FORMAT_REGEX :: rx where
  "URL_WITH_FORMAT_REGEX =
     seqs [Lit ''url('', Cl (CNot '')''), Star (CNot '')''), Lit '')'', Star CSpace,
           Lit ''format('', Grp 1 (Opt (Cl (COf [DQ, SQ]))),
           Grp 2 (Seq (Cl (CNot [DQ, SQ])) (Star (CNot [DQ, SQ]))), Back 1, Lit '')'']"

definition FONT_SRC_REGEX :: rx where
  "FONT_SRC_REGEX =
     seqs [Lit ''src:'', Star CSpace,
           Many (seqs [Lit ''url('', Cl (CNot '')''), Star (CNot '')''), Lit '')'', Star CSpace,
                       Lit ''format('', Cl (CNot '')''), Star (CNot '')''), Lit '')'',
                       Cl (COf '',;''), Star CSpace])]"

text \<open>
  The callback of \<open>filterPreferredFontFormat\<close> on one \<open>src\<close> declaration list: the loop
  over \<open>URL_WITH_FORMAT_REGEX.exec(match)\<close>, which compares each format with the preferred
  one by \<open>===\<close>. The pattern is a constant of the module with
  the \<open>g\<close> flag, so its \<open>lastIndex\<close> is read where the previous call has left it and
  left where this call stops.
\<close>

partial_function (option) pickFormat :: "jsval \<Rightarrow> string \<Rightarrow> nat \<Rightarrow> (string \<times> nat) option" where
  "pickFormat preferred m lastIndex =
    (case exec URL_WITH_FORMAT_REGEX m lastIndex of
       (None, li) \<Rightarrow> Some ([], li)
     | (Some (src, c), li) \<Rightarrow>
         if cap c 2 = [] then Some ([], li)
         else if Str (cap c 2) = preferred then Some (''src: '' @ src @ '';'', li)
         else pickFormat preferred m li)"

declare pickFormat.simps [code]

text \<open>\<open>filterPreferredFontFormat\<close>, from and to the \<open>lastIndex\<close> of the format pattern.\<close>

definition filterPreferredFontFormat :: "string \<Rightarrow> options \<Rightarrow> nat \<Rightarrow> (string \<times> nat) option" where
  "filterPreferredFontFormat str opts lastIndex =
    (if \<not> truthy (preferredFontFormat opts) then Some (str, lastIndex)
     else replace_with FONT_SRC_REGEX (pickFormat (preferredFontFormat opts)) str lastIndex)"


section \<open>util: the class-name generator\<close>

text \<open>\<open>`0000${n.toString(36)}`.slice(-4)\<close> on the random integer \<open>n\<close>.\<close>

definition random4 :: "nat \<Rightarrow> string" where
  "random4 n = (let t = ''0000'' @ to_radix 36 n in drop (length t - 4) t)"

text \<open>\<open>uuid\<close>: the counter goes up by one, the result is \<open>u\<close>, the four random
  characters and the counter.\<close>

definition uuid :: "host \<Rightarrow> world \<Rightarrow> string \<times> world" where
  "uuid h w = (let c = counter w + 1
               in (''u'' @ random4 (randomDraw h c) @ dec c, w\<lparr>counter := c\<rparr>))"

text \<open>The results of \<open>n\<close> calls of \<open>uuid\<close>, one after the other.\<close>

primrec uuid_calls :: "host \<Rightarrow> nat \<Rightarrow> world \<Rightarrow> string list" where
  "uuid_calls h 0 w = []"
| "uuid_calls h (Suc n) w = fst (uuid h w) # uuid_calls h n (snd (uuid h w))"

text \<open>Reading a number back from its digits (used to show that the digits determine it).\<close>

definition digit_val :: "char \<Rightarrow> nat" where
  "digit_val c = length (takeWhile (\<lambda>d. d \<noteq> c) ''0123456789abcdefghijklmnopqrstuvwxyz'')"

definition from_radix :: "nat \<Rightarrow> string \<Rightarrow> nat" where
  "from_radix b s = foldl (\<lambda>a c. a * b + digit_val c) 0 s"

section \<open>clone-pseudos: the generated content of a node\<close>

datatype pseudo = BEFORE | AFTER

fun pseudo_text :: "pseudo \<Rightarrow> string" where
  "pseudo_text BEFORE = '':before''"
| "pseudo_text AFTER = '':after''"

text \<open>\<open>getPropertyValue\<close> and \<open>getPropertyPriority\<close> of a style declaration; the empty
  string for a property that is not set.\<close>

definition getPropertyValue :: "css_style \<Rightarrow> string \<Rightarrow> string" where
  "getPropertyValue st name = (case map_of (properties st) name of None \<Rightarrow> [] | Some (v, p) \<Rightarrow> v)"

definition getPropertyPriority :: "css_style \<Rightarrow> string \<Rightarrow> string" where
  "getPropertyPriority st name = (case map_of (properties st) name of None \<Rightarrow> [] | Some (v, p) \<Rightarrow> p)"

text \<open>\<open>toArray(style)\<close>: the names of the properties.\<close>

definition property_names :: "css_style \<Rightarrow> string list" where
  "property_names st = map fst (properties st)"

text \<open>\<open>Array.prototype.join\<close>.\<close>

fun join :: "string \<Rightarrow> string list \<Rightarrow> string" where
  "join sep [] = []"
| "join sep [x] = x"
| "join sep (x # y # ys) = x @ sep @ join sep (y # ys)"

text \<open>\<open>/'|"/g\<close>\<close>

definition quoteRegex :: rx where
  "quoteRegex = Alt (Lit [SQ]) (Lit [DQ])"

definition formatCSSText :: "css_style \<Rightarrow> string" where
  "formatCSSText st =
     cssText st @ '' content: '' @ [SQ]
       @ replace_all quoteRegex [] (getPropertyValue st ''content'') @ [SQ] @ '';''"

definition formatCSSProperties :: "css_style \<Rightarrow> string" where
  "formatCSSProperties st =
     join '' '' (map (\<lambda>name. name @ '': '' @ getPropertyValue st name
                        @ (if getPropertyPriority st name \<noteq> [] then '' !important'' else [])
                        @ '';'')
                   (property_names st))"

text \<open>Nodes made by the document: an element of a given interface and tag, a text node.\<close>

definition empty_style :: css_style where
  "empty_style = \<lparr>cssText = [], properties = []\<rparr>"

definition blank_data :: node_data where
  "blank_data = \<lparr>iface = TextNode, tagName = None, attributes = [], className = [],
     classNameThrows = False, style = None, nodeValue = [], liveValue = [],
     computed = empty_style, computedBefore = empty_style, computedAfter = empty_style,
     canvasDataURL = [], currentSrc = [], videoFrame = [], poster = []\<rparr>"

definition createElement :: "iface \<Rightarrow> string \<Rightarrow> node" where
  "createElement i tag =
     Node (blank_data\<lparr>iface := i, tagName := Some tag, style := Some empty_style\<rparr>) [] None None None"

definition createTextNode :: "string \<Rightarrow> node" where
  "createTextNode t = Node (blank_data\<lparr>nodeValue := t\<rparr>) [] None None None"

definition appendChild :: "node \<Rightarrow> node \<Rightarrow> node" where
  "appendChild parent child =
     Node (data parent) (childNodes parent @ [child]) (shadowRoot parent) (assignedNodes parent)
          (contentBody parent)"

definition getPseudoElementStyle :: "string \<Rightarrow> string \<Rightarrow> css_style \<Rightarrow> node" where
  "getPseudoElementStyle cls ps st =
     createTextNode (''.'' @ cls @ '':'' @ ps @ ''{''
        @ (if cssText st \<noteq> [] then formatCSSText st else formatCSSProperties st) @ ''}'')"

definition getComputedStyle :: "node \<Rightarrow> pseudo option \<Rightarrow> css_style" where
  "getComputedStyle n ps = (case ps of
      None \<Rightarrow> computed (data n)
    | Some BEFORE \<Rightarrow> computedBefore (data n)
    | Some AFTER \<Rightarrow> computedAfter (data n))"

text \<open>The assignment \<open>node.className = c\<close>. On an SVG element \<open>className\<close> is a
  read-only animated string: the assignment is ignored there.\<close>

definition set_className :: "string \<Rightarrow> node \<Rightarrow> node" where
  "set_className c n =
     (if iface (data n) = SVGElement then n
      else Node ((data n)\<lparr>className := c\<rparr>) (childNodes n) (shadowRoot n) (assignedNodes n)
                (contentBody n))"

text \<open>\<open>clonePseudoElement\<close>: nothing for an empty or \<open>none\<close> content; otherwise a class
  name is drawn, and unless the assignment of the class name throws, the style element with
  the rule is appended to the clone.\<close>

definition clonePseudoElement :: "host \<Rightarrow> node \<Rightarrow> node \<Rightarrow> pseudo \<Rightarrow> world \<Rightarrow> node \<times> world" where
  "clonePseudoElement h nativeNode clonedNode ps w =
    (let st = getComputedStyle nativeNode (Some ps);
         content = getPropertyValue st ''content''
     in if content = [] \<or> content = ''none'' then (clonedNode, w)
        else (let (cls, w1) = uuid h w
              in if classNameThrows (data clonedNode) then (clonedNode, w1)
                 else (appendChild
                         (set_className (className (data clonedNode) @ '' '' @ cls) clonedNode)
                         (appendChild (createElement HTMLStyleElement ''STYLE'')
                            (getPseudoElementStyle cls (pseudo_text ps) st)),
                       w1)))"

definition clonePseudoElements :: "host \<Rightarrow> node \<Rightarrow> node \<Rightarrow> world \<Rightarrow> node \<times> world" where
  "clonePseudoElements h nativeNode clonedNode w =
    (let (c1, w1) = clonePseudoElement h nativeNode clonedNode BEFORE w
     in clonePseudoElement h nativeNode c1 AFTER w1)"

text \<open>The texts of the style elements among the children of a node, in order.\<close>

definition rule_texts :: "node \<Rightarrow> string list" where
  "rule_texts n = map (\<lambda>c. concat (map (\<lambda>t. nodeValue (data t)) (childNodes c)))
                      (filter (\<lambda>c. iface (data c) = HTMLStyleElement) (childNodes n))"

text \<open>\<open>contains needle s\<close>: the text \<open>needle\<close> occurs in \<open>s\<close>.\<close>

definition contains :: "string \<Rightarrow> string \<Rightarrow> bool" where
  "contains needle s = test (Lit needle) s"

text \<open>A character that is not a quote.\<close>

abbreviation notq :: "char \<Rightarrow> bool" where "notq c \<equiv> c \<noteq> SQ \<and> c \<noteq> DQ"

section \<open>Numbers read from and written to text\<close>

definition is_digit :: "char \<Rightarrow> bool" where
  "is_digit c = (c \<in> set ''0123456789'')"

text \<open>
  \<open>parseFloat\<close>: leading white space, a sign, then \<open>Infinity\<close> or the longest decimal
  literal; \<open>NaN\<close> when there is no digit. A literal without exponent, with at most 300
  fraction digits, whose digits make a number below \<open>10^15\<close> is read as the decimal it
  denotes: the double nearest to it lies on the same side of every integer, and is that
  integer when the literal denotes one, so \<open>Math.floor\<close>, the only reader of the result, is
  the same on both. For every other literal the result is the double of the host.
\<close>

definition parseFloat :: "host \<Rightarrow> string \<Rightarrow> jsnum" where
  "parseFloat h s =
    (let t = dropWhile is_space s;
         neg = (case t of [] \<Rightarrow> False | c # r \<Rightarrow> c = CHR ''-'');
         u = (case t of [] \<Rightarrow> [] | c # r \<Rightarrow> if c = CHR ''-'' \<or> c = CHR ''+'' then r else t)
     in if strip_lit (=) ''Infinity'' u \<noteq> None then (if neg then NegInf else PosInf)
        else (let ip = takeWhile is_digit u;
                  r1 = dropWhile is_digit u;
                  fp = (case r1 of [] \<Rightarrow> [] | d # r \<Rightarrow> if d = CHR ''.'' then takeWhile is_digit r else []);
                  r2 = (case r1 of [] \<Rightarrow> [] | d # r \<Rightarrow> if d = CHR ''.'' then dropWhile is_digit r else r1);
                  exponent = (case r2 of [] \<Rightarrow> False | e # r \<Rightarrow> e = CHR ''e'' \<or> e = CHR ''E'')
              in if ip = [] \<and> fp = [] then NaN
                 else if from_radix 10 (ip @ fp) < 10 ^ 15 \<and> length fp \<le> 300 \<and> \<not> exponent
                      then Dec ((if neg then - 1 else 1) * int (from_radix 10 (ip @ fp))) (length fp)
                      else doubleOf h s))"

text \<open>\<open>Math.floor\<close>: exact on a double.\<close>

fun floor_num :: "jsnum \<Rightarrow> jsnum" where
  "floor_num (Dec m k) = Dec (m div 10 ^ k) 0"
| "floor_num x = x"

text \<open>A number inside a template literal: the integer part, and the fraction digits without
  trailing zeros.\<close>

definition fraction_digits :: "nat \<Rightarrow> nat \<Rightarrow> string" where
  "fraction_digits k f =
     rev (dropWhile (\<lambda>c. c = CHR ''0'') (rev (replicate (k - length (dec f)) CHR ''0'' @ dec f)))"

fun num_text :: "jsnum \<Rightarrow> string" where
  "num_text NaN = ''NaN''"
| "num_text PosInf = ''Infinity''"
| "num_text NegInf = ''-Infinity''"
| "num_text (Dec m k) =
     (if m < 0 then ''-'' else []) @ dec (nat \<bar>m\<bar> div 10 ^ k)
     @ (if fraction_digits k (nat \<bar>m\<bar> mod 10 ^ k) = [] then []
        else ''.'' @ fraction_digits k (nat \<bar>m\<bar> mod 10 ^ k))"

text \<open>
  The text of \<open>x - 0.1\<close> for a number \<open>x\<close> that \<open>Math.floor\<close> has returned. For an
  integer \<open>n\<close> of at most fourteen digits the double \<open>n - 0.1\<close> is the one nearest to
  the decimal \<open>(10 n - 1) / 10\<close> and is written with the digits of that decimal; for a
  larger one the text is the host's. \<open>NaN\<close> and the infinities stay what they are.
\<close>

fun minus_tenth_text :: "host \<Rightarrow> jsnum \<Rightarrow> string" where
  "minus_tenth_text h (Dec n k) =
     (if \<bar>n\<bar> < 10 ^ 14 then num_text (Dec (10 * n - 1) 1) else reducedText h n)"
| "minus_tenth_text h x = num_text x"

section \<open>clone-node: the computed style of a node on its clone\<close>

definition endsWith :: "string \<Rightarrow> string \<Rightarrow> bool" where
  "endsWith s suffix = (length suffix \<le> length s \<and> drop (length s - length suffix) s = suffix)"

text \<open>\<open>setProperty\<close> on a style declaration: an empty value removes the property, a value
  the host does not accept for the property changes nothing.\<close>

definition setProperty :: "host \<Rightarrow> string \<Rightarrow> string \<Rightarrow> string \<Rightarrow> css_style \<Rightarrow> css_style" where
  "setProperty h name v p st =
     (if v = [] then st\<lparr>properties := AList.delete name (properties st)\<rparr>
      else if validValue h name v then st\<lparr>properties := AList.update name (v, p) (properties st)\<rparr>
      else st)"

definition getAttribute :: "node \<Rightarrow> string \<Rightarrow> string option" where
  "getAttribute n name = map_of (attributes (data n)) name"

text \<open>The value \<open>cloneCSSStyle\<close> applies for one property of the computed style: the three
  adjustments in the order of the source.\<close>

definition reducedFont :: "host \<Rightarrow> string \<Rightarrow> string" where
  "reducedFont h v =
     minus_tenth_text h (floor_num (parseFloat h (take (length v - 2) v))) @ ''px''"

definition adjustedValue :: "host \<Rightarrow> node \<Rightarrow> node \<Rightarrow> css_style \<Rightarrow> string \<Rightarrow> string" where
  "adjustedValue h nativeNode clonedNode sourceStyle name =
    (let v0 = getPropertyValue sourceStyle name;
         v1 = (if name = ''font-size'' \<and> endsWith v0 ''px'' then reducedFont h v0 else v0);
         v2 = (if iface (data nativeNode) = HTMLIFrameElement \<and> name = ''display'' \<and> v1 = ''inline''
               then ''block'' else v1)
     in case getAttribute clonedNode ''d'' of
          None \<Rightarrow> v2
        | Some d \<Rightarrow> if name = ''d'' \<and> d \<noteq> [] then ''path('' @ d @ '')'' else v2)"

definition set_style :: "css_style \<Rightarrow> node \<Rightarrow> node" where
  "set_style st n =
     Node ((data n)\<lparr>style := Some st\<rparr>) (childNodes n) (shadowRoot n) (assignedNodes n) (contentBody n)"

text \<open>
  \<open>cloneCSSStyle\<close>. With a serialised text the text is assigned as a whole and
  \<open>transform-origin\<close> is set again (the host's parsing of the text into properties is not
  modelled); otherwise the properties are set one by one.
\<close>

definition cloneCSSStyle :: "host \<Rightarrow> node \<Rightarrow> node \<Rightarrow> node" where
  "cloneCSSStyle h nativeNode clonedNode =
    (case style (data clonedNode) of
       None \<Rightarrow> clonedNode
     | Some targetStyle \<Rightarrow>
        (let sourceStyle = getComputedStyle nativeNode None
         in if cssText sourceStyle \<noteq> []
            then set_style
                   (setProperty h ''transform-origin'' (getPropertyValue sourceStyle ''transform-origin'') []
                      (targetStyle\<lparr>cssText := cssText sourceStyle\<rparr>))
                   clonedNode
            else set_style
                   (foldl (\<lambda>st name. setProperty h name
                                        (adjustedValue h nativeNode clonedNode sourceStyle name)
                                        (getPropertyPriority sourceStyle name) st)
                      targetStyle (property_names sourceStyle))
                   clonedNode))"

text \<open>The value of a property in the inline style of a node (empty when there is none).\<close>

definition inlineValue :: "node \<Rightarrow> string \<Rightarrow> string" where
  "inlineValue n name = (case style (data n) of None \<Rightarrow> [] | Some st \<Rightarrow> getPropertyValue st name)"

section \<open>mimes: the content type of a URL\<close>

definition mimes :: "(string \<times> string) list" where
  "mimes = [(''woff'', ''application/font-woff''), (''woff2'', ''application/font-woff''),
            (''ttf'', ''application/font-truetype''), (''eot'', ''application/vnd.ms-fontobject''),
            (''png'', ''image/png''), (''jpg'', ''image/jpeg''), (''jpeg'', ''image/jpeg''),
            (''gif'', ''image/gif''), (''tiff'', ''image/tiff''), (''svg'', ''image/svg+xml''),
            (''webp'', ''image/webp'')]"

text \<open>\<open>/\.([^./]*?)$/\<close>\<close>

definition extensionRegex :: rx where
  "extensionRegex = seqs [Lit ''.'', Grp 1 (StarL (CNot ''./'')), Eos]"

definition getExtension :: "string \<Rightarrow> string" where
  "getExtension url = (case search extensionRegex url of None \<Rightarrow> [] | Some (i, n, c) \<Rightarrow> cap c 1)"

text \<open>\<open>mimes[extension] || ""\<close>: the table is a plain object, so for an extension such as
  \<open>constructor\<close> the result is the inherited member.\<close>

definition getMimeType :: "host \<Rightarrow> string \<Rightarrow> jsval" where
  "getMimeType h url =
     or_empty (lookupMember h (map (\<lambda>(ext, m). (ext, Str m)) mimes) (map lower_of (getExtension url)))"

section \<open>clone-node: the clone of one node\<close>

definition upper_of :: "char \<Rightarrow> char" where
  "upper_of c = (case map_of (zip ''abcdefghijklmnopqrstuvwxyz'' ''ABCDEFGHIJKLMNOPQRSTUVWXYZ'') c of
     None \<Rightarrow> c | Some d \<Rightarrow> d)"

text \<open>\<open>node.cloneNode(false)\<close>: the node without children, shadow tree, assigned nodes and
  embedded document.\<close>

definition shallowClone :: "node \<Rightarrow> node" where
  "shallowClone n = Node (data n) [] None None None"

text \<open>\<open>createImage\<close>: the promise is rejected with the error of the host, or resolved with
  the new image.\<close>

definition createImage :: "host \<Rightarrow> string \<Rightarrow> js_error + node" where
  "createImage h url =
    (case imageError h url of
       Some e \<Rightarrow> Inl e
     | None \<Rightarrow> Inr (Node (blank_data\<lparr>iface := HTMLImageElement, tagName := Some ''IMG'',
                               attributes := [(''crossorigin'', ''anonymous''),
                                              (''decoding'', ''async''), (''src'', url)],
                               style := Some empty_style\<rparr>) [] None None None))"

definition cloneCanvasElement :: "host \<Rightarrow> node \<Rightarrow> js_error + node" where
  "cloneCanvasElement h canvas =
    (if canvasDataURL (data canvas) = ''data:,'' then Inr (shallowClone canvas)
     else createImage h (canvasDataURL (data canvas)))"

definition cloneVideoElement :: "host \<Rightarrow> node \<Rightarrow> options \<Rightarrow> world \<Rightarrow> (js_error + node) \<times> world" where
  "cloneVideoElement h video opts w =
    (if currentSrc (data video) \<noteq> [] then (createImage h (videoFrame (data video)), w)
     else (let (dataURL, w1) = resourceToDataURL h (poster (data video))
                                  (getMimeType h (poster (data video))) opts w
           in (createImage h (to_text dataURL), w1)))"

definition isSlotElement :: "node \<Rightarrow> bool" where
  "isSlotElement n = (case tagName (data n) of None \<Rightarrow> False | Some t \<Rightarrow> map upper_of t = ''SLOT'')"

text \<open>The children \<open>cloneChildren\<close> works on: the assigned nodes of a slot, the children of
  the body of an embedded document, the children of a shadow root, or the children of the node.\<close>

definition childrenOf :: "node \<Rightarrow> node list" where
  "childrenOf n =
    (if isSlotElement n \<and> assignedNodes n \<noteq> None then the (assignedNodes n)
     else if iface (data n) = HTMLIFrameElement \<and> contentBody n \<noteq> None
          then childNodes (the (contentBody n))
     else (case shadowRoot n of Some cs \<Rightarrow> cs | None \<Rightarrow> childNodes n))"

definition setAttribute :: "string \<Rightarrow> string \<Rightarrow> node \<Rightarrow> node" where
  "setAttribute name v n =
     Node ((data n)\<lparr>attributes := AList.update name v (attributes (data n))\<rparr>)
          (childNodes n) (shadowRoot n) (assignedNodes n) (contentBody n)"

text \<open>\<open>cloneInputValue\<close>: the value of a text area is assigned to \<open>innerHTML\<close> of its
  clone, whose children become what the host reads from that text; the value of an input
  becomes its \<open>value\<close> attribute.\<close>

definition cloneInputValue :: "host \<Rightarrow> node \<Rightarrow> node \<Rightarrow> node" where
  "cloneInputValue h nativeNode clonedNode =
    (let c1 = (if iface (data nativeNode) = HTMLTextAreaElement
               then Node (data clonedNode) (parseFragment h (liveValue (data nativeNode)))
                         (shadowRoot clonedNode) (assignedNodes clonedNode) (contentBody clonedNode)
               else clonedNode)
     in if iface (data nativeNode) = HTMLInputElement
        then setAttribute ''value'' (liveValue (data nativeNode)) c1
        else c1)"

text \<open>\<open>cloneSelectValue\<close>: the first element child of the clone whose \<open>value\<close> attribute
  is the value of the select gets the attribute \<open>selected\<close>.\<close>

fun selectOption :: "string \<Rightarrow> node list \<Rightarrow> node list" where
  "selectOption v [] = []"
| "selectOption v (c # cs) =
     (if iface (data c) \<noteq> TextNode \<and> getAttribute c ''value'' = Some v
      then setAttribute ''selected'' [] c # cs
      else c # selectOption v cs)"

definition cloneSelectValue :: "node \<Rightarrow> node \<Rightarrow> node" where
  "cloneSelectValue nativeNode clonedNode =
    (if iface (data nativeNode) = HTMLSelectElement
     then Node (data clonedNode) (selectOption (liveValue (data nativeNode)) (childNodes clonedNode))
               (shadowRoot clonedNode) (assignedNodes clonedNode) (contentBody clonedNode)
     else clonedNode)"

definition decorate :: "host \<Rightarrow> node \<Rightarrow> node \<Rightarrow> world \<Rightarrow> node \<times> world" where
  "decorate h nativeNode clonedNode w =
    (if iface (data clonedNode) \<noteq> TextNode
     then (let c1 = cloneCSSStyle h nativeNode clonedNode;
               (c2, w1) = clonePseudoElements h nativeNode c1 w;
               c3 = cloneInputValue h nativeNode c2
           in (cloneSelectValue nativeNode c3, w1))
     else (clonedNode, w))"

text \<open>
  \<open>ensureSVGSymbols\<close>: the definitions found by the host (none when the clone has no
  \<open>use\<close> element) are put into a hidden container that is appended to the clone. The code
  creates the container and its \<open>defs\<close> with \<open>createElementNS\<close> in the XHTML namespace,
  so they are HTML elements of no known kind with the tag names \<open>SVG\<close> and \<open>DEFS\<close>, not
  SVG elements.
\<close>

definition hiddenSvg :: "node list \<Rightarrow> node" where
  "hiddenSvg nodes =
     Node (blank_data\<lparr>iface := OtherElement, tagName := Some ''SVG'',
             attributes := [(''xmlns'', ''http://www.w3.org/1999/xhtml'')],
             style := Some \<lparr>cssText = [],
                             properties = [(''position'', ''absolute'', []), (''width'', ''0'', []),
                                           (''height'', ''0'', []), (''overflow'', ''hidden'', []),
                                           (''display'', ''none'', [])]\<rparr>\<rparr>)
          [Node (blank_data\<lparr>iface := OtherElement, tagName := Some ''DEFS'',
                   style := Some empty_style\<rparr>) nodes None None None]
          None None None"

definition ensureSVGSymbols :: "host \<Rightarrow> node \<Rightarrow> options \<Rightarrow> world \<Rightarrow> (js_error + node) \<times> world" where
  "ensureSVGSymbols h clone opts w =
    (case processedDefs h clone opts w of
       (Inl e, w1) \<Rightarrow> (Inl e, w1)
     | (Inr nodes, w1) \<Rightarrow>
         if nodes = [] then (Inr clone, w1) else (Inr (appendChild clone (hiddenSvg nodes)), w1))"

text \<open>The filter gate of \<open>cloneNode\<close>: a filter is configured and rejects the node.\<close>

definition rejected :: "options \<Rightarrow> node \<Rightarrow> bool" where
  "rejected opts n = (case filterFn opts of None \<Rightarrow> False | Some f \<Rightarrow> \<not> f n)"

text \<open>The children to clone, and the body of an embedded document, are smaller than the node.\<close>

lemma childrenOf_size: "size_list size (childrenOf n) < size n"
proof (cases n)
  case (Node d cs sh asg body)
  show ?thesis
  proof (cases body)
    case None
    with Node show ?thesis by (auto simp: childrenOf_def split: option.splits)
  next
    case (Some b)
    have "size_list size (childNodes b) < size b" by (cases b) simp
    with Node Some show ?thesis by (auto simp: childrenOf_def split: option.splits)
  qed
qed

lemma contentBody_size: "contentBody n = Some b \<Longrightarrow> size b < size n"
  by (cases n) simp

text \<open>
  \<open>cloneNode\<close> and the functions it calls and is called by. A rejected promise is the
  result \<open>Inl\<close>; the result \<open>Inr None\<close> of \<open>cloneNode\<close> is \<open>null\<close>.
  \<open>cloneEach\<close> is the \<open>reduce\<close> of \<open>cloneChildren\<close> over the children: one child after
  the other, each clone that is not \<open>null\<close> appended to the parent clone.
\<close>

function cloneNode :: "host \<Rightarrow> options \<Rightarrow> bool \<Rightarrow> node \<Rightarrow> world \<Rightarrow> (js_error + node option) \<times> world"
  and cloneIFrameElement :: "host \<Rightarrow> node \<Rightarrow> world \<Rightarrow> (js_error + node) \<times> world"
  and cloneSingleNode :: "host \<Rightarrow> options \<Rightarrow> node \<Rightarrow> world \<Rightarrow> (js_error + node) \<times> world"
  and cloneChildren :: "host \<Rightarrow> options \<Rightarrow> node \<Rightarrow> node \<Rightarrow> world \<Rightarrow> (js_error + node) \<times> world"
  and cloneEach :: "host \<Rightarrow> options \<Rightarrow> node list \<Rightarrow> node \<Rightarrow> world \<Rightarrow> (js_error + node) \<times> world"
where
  "cloneNode h opts isRoot node w =
    (if \<not> isRoot \<and> rejected opts node then (Inr None, w)
     else (case cloneSingleNode h opts node w of
             (Inl e, w1) \<Rightarrow> (Inl e, w1)
           | (Inr c1, w1) \<Rightarrow>
              (case cloneChildren h opts node c1 w1 of
                 (Inl e, w2) \<Rightarrow> (Inl e, w2)
               | (Inr c2, w2) \<Rightarrow>
                  (case decorate h node c2 w2 of
                     (c3, w3) \<Rightarrow>
                       (case ensureSVGSymbols h c3 opts w3 of
                          (Inl e, w4) \<Rightarrow> (Inl e, w4)
                        | (Inr c4, w4) \<Rightarrow> (Inr (Some c4), w4))))))"
| "cloneIFrameElement h iframe w =
    (case contentBody iframe of
       None \<Rightarrow> (Inr (shallowClone iframe), w)
     | Some body \<Rightarrow>
        (case cloneNode h default_options True body w of
           (Inr (Some c), w1) \<Rightarrow> (Inr c, w1)
         | (Inr None, w1) \<Rightarrow> (Inl (ErrObject ''TypeError''), w1)
         | (Inl e, w1) \<Rightarrow> (Inr (shallowClone iframe), w1)))"
| "cloneSingleNode h opts node w =
    (if iface (data node) = HTMLCanvasElement then (cloneCanvasElement h node, w)
     else if iface (data node) = HTMLVideoElement then cloneVideoElement h node opts w
     else if iface (data node) = HTMLIFrameElement then cloneIFrameElement h node w
     else (Inr (shallowClone node), w))"
| "cloneChildren h opts nativeNode clonedNode w =
    (if childrenOf nativeNode = [] \<or> iface (data nativeNode) = HTMLVideoElement
     then (Inr clonedNode, w)
     else cloneEach h opts (childrenOf nativeNode) clonedNode w)"
| "cloneEach h opts [] clonedNode w = (Inr clonedNode, w)"
| "cloneEach h opts (child # rest) clonedNode w =
    (case cloneNode h opts False child w of
       (Inl e, w1) \<Rightarrow> (Inl e, w1)
     | (Inr None, w1) \<Rightarrow> cloneEach h opts rest clonedNode w1
     | (Inr (Some clonedChild), w1) \<Rightarrow> cloneEach h opts rest (appendChild clonedNode clonedChild) w1)"
  by pat_completeness auto

termination
proof (relation "measure (\<lambda>x. case x of
          Inl (Inl (h, opts, isRoot, n, w)) \<Rightarrow> 3 * size n + 2
        | Inl (Inr (h, n, w)) \<Rightarrow> 3 * size n
        | Inr (Inl (h, opts, n, w)) \<Rightarrow> 3 * size n + 1
        | Inr (Inr (Inl (h, opts, n, c, w))) \<Rightarrow> 3 * size n + 1
        | Inr (Inr (Inr (h, opts, cs, c, w))) \<Rightarrow> 3 * size_list size cs + 3)",
       goal_cases)
  case 1
  show ?case by simp
next
  case 2
  then show ?case by simp
next
  case 3
  then show ?case by simp
next
  case (4 h iframe w body)
  then show ?case using contentBody_size [of iframe body] by simp
next
  case 5
  then show ?case by simp
next
  case (6 h opts nativeNode clonedNode w)
  then show ?case using childrenOf_size [of nativeNode] by simp
next
  case 7
  then show ?case by simp
next
  case 8
  then show ?case by simp
next
  case 9
  then show ?case by simp
qed

declare cloneNode.simps [simp del] cloneIFrameElement.simps [simp del] cloneSingleNode.simps [simp del]
  cloneChildren.simps [simp del]

section \<open>embed-webfonts: the font style sheet of the clone\<close>

text \<open>\<open>insertBefore(child, parent.firstChild)\<close>\<close>

definition insertFirst :: "node \<Rightarrow> node \<Rightarrow> node" where
  "insertFirst parent child =
     Node (data parent) (child # childNodes parent) (shadowRoot parent) (assignedNodes parent)
          (contentBody parent)"

text \<open>
  \<open>embedWebFonts\<close>. The text is the option \<open>fontEmbedCSS\<close> unless that is exactly
  \<open>null\<close>; then it is \<open>null\<close> when \<open>skipFonts\<close> is set, and the result of
  \<open>getWebFontCSS\<close> otherwise. A text that is truthy goes into a style element in front of
  the children of the clone.
\<close>

definition embedWebFonts :: "host \<Rightarrow> node \<Rightarrow> options \<Rightarrow> world \<Rightarrow> (js_error + node) \<times> world" where
  "embedWebFonts h clonedNode opts w =
    (let (r, w1) = (if fontEmbedCSS opts \<noteq> Null then (Inr (fontEmbedCSS opts), w)
                    else if skipFonts opts then (Inr Null, w)
                    else (case webFontCSS h clonedNode opts w of
                            (Inl e, w') \<Rightarrow> (Inl e, w')
                          | (Inr found, w') \<Rightarrow> (Inr (Str found), w')))
     in case r of
          Inl e \<Rightarrow> (Inl e, w1)
        | Inr text \<Rightarrow>
            if truthy text
            then (let styleNode = appendChild (createElement HTMLStyleElement ''STYLE'')
                                    (createTextNode (to_text text))
                  in if childNodes clonedNode \<noteq> []
                     then (Inr (insertFirst clonedNode styleNode), w1)
                     else (Inr (appendChild clonedNode styleNode), w1))
            else (Inr clonedNode, w1))"

text \<open>A style element that holds a text.\<close>

definition styleElementWith :: "string \<Rightarrow> node" where
  "styleElementWith css = appendChild (createElement HTMLStyleElement ''STYLE'') (createTextNode css)"

text \<open>The pseudo-element of a node generates nothing: its resolved content is empty or
  \<open>none\<close>.\<close>

definition no_content :: "node \<Rightarrow> pseudo \<Rightarrow> bool" where
  "no_content n ps = (getPropertyValue (getComputedStyle n (Some ps)) ''content'' \<in> {[], ''none''})"

text \<open>The children of the clone a conversion has produced (none when it has produced no
  clone).\<close>

definition cloneResultChildren :: "(js_error + node option) \<times> world \<Rightarrow> node list" where
  "cloneResultChildren r = (case fst r of Inr (Some n) \<Rightarrow> childNodes n | _ \<Rightarrow> [])"

section \<open>Example inputs\<close>

text \<open>
  A fresh process, and three hosts: one whose every fetch succeeds, one whose every fetch is
  answered with status 404, and one that answers the first request and then fails. Their style
  declarations accept every value that does not begin with a minus sign; their answers for
  numbers that do not fit a double are not used below.
\<close>

definition world0 :: world where
  "world0 = \<lparr>cache = [], counter = 0, requests = [], warnings = []\<rparr>"

definition response_ok :: "string \<Rightarrow> response" where
  "response_ok u = \<lparr>status = 200, res_url = u, contentTypeHeader = Str ''image/png'',
                     readResult = Inr ''data:image/png;base64,iVBORw0KGgo=''\<rparr>"

definition response_404 :: "string \<Rightarrow> response" where
  "response_404 u = \<lparr>status = 404, res_url = u, contentTypeHeader = Null, readResult = Inr []\<rparr>"

definition host_ok :: host where
  "host_ok = \<lparr>fetch = (\<lambda>n u. Inr (response_ok u)),
               now = (\<lambda>n. 0), randomDraw = (\<lambda>n. 0), imageError = (\<lambda>u. None),
               webFontCSS = (\<lambda>n opts w. (Inr [], w)), processedDefs = (\<lambda>n opts w. (Inr [], w)),
               memberText = (\<lambda>name. if name = ''__proto__'' then ''[object Object]''
                                    else if name = ''constructor'' then ''function Object() { [native code] }''
                                    else ''function '' @ name @ ''() { [native code] }''),
               validValue = (\<lambda>name v. take 1 v \<noteq> ''-''),
               doubleOf = (\<lambda>s. NaN), reducedText = (\<lambda>n. ''NaN''),
               parseFragment = (\<lambda>t. if t = [] then [] else [createTextNode t])\<rparr>"

definition host_404 :: host where
  "host_404 = host_ok\<lparr>fetch := (\<lambda>n u. Inr (response_404 u))\<rparr>"

definition host_flaky :: host where
  "host_flaky = host_ok\<lparr>fetch := (\<lambda>n u. if n = 0 then Inr (response_ok u) else Inr (response_404 u))\<rparr>"

text \<open>The \<open>src\<close> declaration list of the font-face scenario, and what is to be left of it.\<close>

definition src_example :: string where
  "src_example = ''src: url(a.woff2) format('' @ [DQ] @ ''woff2'' @ [DQ] @ ''), url(a.ttf) format(''
                   @ [DQ] @ ''truetype'' @ [DQ] @ '');''"

definition src_filtered :: string where
  "src_filtered = ''src: url(a.woff2) format('' @ [DQ] @ ''woff2'' @ [DQ] @ '');''"

definition woff2_options :: options where
  "woff2_options = default_options\<lparr>preferredFontFormat := Str ''woff2''\<rparr>"

text \<open>The request number \<open>n\<close> fails: it is rejected, answered with 404, or with a body
  that cannot be read.\<close>

definition fetch_fails :: "host \<Rightarrow> nat \<Rightarrow> string \<Rightarrow> bool" where
  "fetch_fails h n url = (case fetch h n url of
      Inl e \<Rightarrow> True
    | Inr res \<Rightarrow> status res = 404 \<or> (case readResult res of Inl e \<Rightarrow> True | Inr r \<Rightarrow> False))"

text \<open>
  An element whose \<open>:before\<close> has the resolved content \<open>"x"\<close> in a computed style that
  has no serialised text; one whose \<open>:before\<close> has the content \<open>"it's \"quoted\""\<close> in a
  computed style with a serialised text; and a fresh \<open>div\<close> as their clone.
\<close>

definition native_unserialised :: node where
  "native_unserialised =
     Node (blank_data\<lparr>iface := OtherElement, tagName := Some ''DIV'',
             computedBefore := \<lparr>cssText = [], properties = [(''content'', [DQ] @ ''x'' @ [DQ], [])]\<rparr>\<rparr>)
          [] None None None"

definition quoted_content :: string where
  "quoted_content = [DQ] @ ''it'' @ [SQ] @ ''s '' @ [CHR 0x5C, DQ] @ ''quoted'' @ [CHR 0x5C, DQ, DQ]"

definition native_serialised :: node where
  "native_serialised =
     Node (blank_data\<lparr>iface := OtherElement, tagName := Some ''DIV'',
             computedBefore := \<lparr>cssText = ''color: red;'',
                                properties = [(''color'', ''red'', []), (''content'', quoted_content, [])]\<rparr>\<rparr>)
          [] None None None"

definition div_clone :: node where
  "div_clone = createElement OtherElement ''DIV''"

text \<open>An element whose resolved font size is 16.5 pixels, in a computed style without a
  serialised text.\<close>

definition native_font :: node where
  "native_font =
     Node (blank_data\<lparr>iface := OtherElement, tagName := Some ''DIV'',
             computed := \<lparr>cssText = [], properties = [(''font-size'', ''16.5px'', [])]\<rparr>\<rparr>)
          [] None None None"

text \<open>A host whose web-font discovery finds one font-face rule.\<close>

definition host_fonts :: host where
  "host_fonts = host_ok\<lparr>webFontCSS := (\<lambda>n opts w. (Inr ''@font-face{font-family:A}'', w))\<rparr>"

text \<open>
  A container with the three children \<open>A\<close>, \<open>B\<close>, \<open>C\<close> (text nodes), whose \<open>:before\<close>
  has the resolved content \<open>"x"\<close>, and options whose filter rejects exactly \<open>B\<close>.
\<close>

definition text_A :: node where "text_A = createTextNode ''A''"
definition text_B :: node where "text_B = createTextNode ''B''"
definition text_C :: node where "text_C = createTextNode ''C''"

definition container_with_pseudo :: node where
  "container_with_pseudo =
     Node (blank_data\<lparr>iface := OtherElement, tagName := Some ''DIV'', style := Some empty_style,
             computedBefore := \<lparr>cssText = [], properties = [(''content'', [DQ] @ ''x'' @ [DQ], [])]\<rparr>\<rparr>)
          [text_A, text_B, text_C] None None None"

definition plain_container :: node where
  "plain_container =
     Node (blank_data\<lparr>iface := OtherElement, tagName := Some ''DIV'', style := Some empty_style\<rparr>)
          [text_A, text_B, text_C] None None None"

definition reject_B :: options where
  "reject_B = default_options\<lparr>filterFn := Some (\<lambda>n. nodeValue (data n) \<noteq> ''B'')\<rparr>"

section \<open>Properties\<close>

subsection \<open>The resource cache\<close>

lemma lookupMember_update:
  "k \<noteq> ''__proto__'' \<Longrightarrow> lookupMember h (AList.update k v al) k = v"
  by (simp add: lookupMember_def update_conv')

lemma lookupMember_update_other:
  "k' \<noteq> k \<Longrightarrow> lookupMember h (AList.update k' v al) k = lookupMember h al k"
  by (simp add: lookupMember_def update_conv')

lemma miss_not_proto: "nullish (lookupMember h al k) \<Longrightarrow> k \<noteq> ''__proto__''"
  by (auto simp: lookupMember_def)

lemma or_empty_not_nullish: "\<not> nullish (or_empty v)"
  by (cases v) (simp_all add: or_empty_def)

lemma or_empty_cases:
  "or_empty v = (case v of Undefined \<Rightarrow> Str [] | Null \<Rightarrow> Str [] | Str p \<Rightarrow> Str p | Obj t \<Rightarrow> Obj t)"
  by (cases v) (simp_all add: or_empty_def)

lemma fetchAsDataURL_fails:
  "fetch_fails h (length (requests w)) u \<Longrightarrow> \<exists>e. fst (fetchAsDataURL h u p w) = Inl e"
  by (auto simp: fetchAsDataURL_def fetchResult_def fetch_fails_def split: sum.splits if_splits)

text \<open>A call that finds its key returns what it finds and changes nothing; a call that misses
  makes exactly one request and stores what it returns, which is never \<open>null\<close> or
  \<open>undefined\<close>.\<close>

lemma resourceToDataURL_hit:
  assumes "\<not> nullish (lookupMember h (cache w) (getCacheKey url ct (includeQueryParams opts)))"
  shows "resourceToDataURL h url ct opts w
           = (lookupMember h (cache w) (getCacheKey url ct (includeQueryParams opts)), w)"
  using assms by (simp add: resourceToDataURL_def)

lemma resourceToDataURL_miss:
  assumes "nullish (lookupMember h (cache w) (getCacheKey url ct (includeQueryParams opts)))"
      and "resourceToDataURL h url ct opts w = (r, w')"
  shows "\<not> nullish r
       \<and> requests w' = requests w @ [bustedUrl h opts (length (requests w)) url]
       \<and> cache w' = AList.update (getCacheKey url ct (includeQueryParams opts)) r (cache w)"
  using assms
  by (auto simp: resourceToDataURL_def Let_def fetchAsDataURL_def log_warning_def
        or_empty_not_nullish split: prod.splits sum.splits option.splits)

lemma resourceToDataURL_caches:
  assumes "resourceToDataURL h url ct opts w = (r, w')"
  shows "lookupMember h (cache w') (getCacheKey url ct (includeQueryParams opts)) = r \<and> \<not> nullish r"
proof (cases "nullish (lookupMember h (cache w) (getCacheKey url ct (includeQueryParams opts)))")
  case True
  from resourceToDataURL_miss [OF True assms] miss_not_proto [OF True]
  show ?thesis by (simp add: lookupMember_update)
next
  case False
  from resourceToDataURL_hit [OF False] assms False show ?thesis by auto
qed

text \<open>A call that runs to its end leaves every entry that is there as it is.\<close>

lemma resourceToDataURL_keeps:
  assumes "\<not> nullish (lookupMember h (cache w) k)"
  shows "lookupMember h (cache (snd (resourceToDataURL h url ct opts w))) k = lookupMember h (cache w) k"
proof (cases "nullish (lookupMember h (cache w) (getCacheKey url ct (includeQueryParams opts)))")
  case True
  obtain r w' where rw: "resourceToDataURL h url ct opts w = (r, w')"
    by (cases "resourceToDataURL h url ct opts w")
  from True assms have "getCacheKey url ct (includeQueryParams opts) \<noteq> k" by auto
  with resourceToDataURL_miss [OF True rw] rw show ?thesis
    by (simp add: lookupMember_update_other)
next
  case False
  from resourceToDataURL_hit [OF False] show ?thesis by simp
qed

lemma run_calls_keeps:
  "\<not> nullish (lookupMember h (cache w) k) \<Longrightarrow>
   lookupMember h (cache (run_calls h cs w)) k = lookupMember h (cache w) k"
proof (induction cs arbitrary: w)
  case Nil
  then show ?case by simp
next
  case (Cons x xs)
  obtain url ct opts where x: "x = (url, ct, opts)" by (cases x)
  let ?w = "snd (resourceToDataURL h url ct opts w)"
  have k: "lookupMember h (cache ?w) k = lookupMember h (cache w) k"
    by (rule resourceToDataURL_keeps [OF Cons.prems])
  with Cons.prems have "\<not> nullish (lookupMember h (cache ?w) k)" by simp
  from Cons.IH [OF this] k x show ?case by simp
qed

lemma key_bg:
  "getCacheKey ''https://example.com/bg.png'' (Str ''image/png'') False
     = ''[image/png]https://example.com/bg.png''"
  by code_simp

lemma key_bg_query:
  "getCacheKey ''https://example.com/bg.png?v=2'' (Str ''image/png'') False
     = ''[image/png]https://example.com/bg.png''"
  by code_simp

lemma key_icon:
  "getCacheKey ''https://example.com/icon.png'' (Str ''image/png'') False
     = ''[image/png]https://example.com/icon.png''"
  by code_simp

lemma lookup_fresh:
  "lookupMember h [] ''[image/png]https://example.com/bg.png'' = Undefined"
  by (simp add: lookupMember_def objectPrototype_def)

text \<open>
  C2. \<open>resourceToDataURL\<close> is a total function into values, so no failure leaves it. A fetch
  is made only when the look-up in the cache object misses; when it then fails (rejected, 404,
  unreadable body), the result is the configured \<open>imagePlaceholder\<close>, or the empty string
  when none is configured, and the cache holds that same value under the key of
  \<open>getCacheKey\<close>. (A key that names a member every object inherits, such as
  \<open>constructor\<close>, never misses: the call returns that member and fetches nothing.)
\<close>

theorem resourceToDataURL_failure:
  assumes "nullish (lookupMember h (cache w) (getCacheKey url ct (includeQueryParams opts)))"
      and "fetch_fails h (length (requests w)) (bustedUrl h opts (length (requests w)) url)"
  shows "fst (resourceToDataURL h url ct opts w) =
           (case imagePlaceholder opts of
              Undefined \<Rightarrow> Str [] | Null \<Rightarrow> Str [] | Str p \<Rightarrow> Str p | Obj t \<Rightarrow> Obj t)
       \<and> lookupMember h (cache (snd (resourceToDataURL h url ct opts w)))
            (getCacheKey url ct (includeQueryParams opts))
          = fst (resourceToDataURL h url ct opts w)
       \<and> map_of (cache (snd (resourceToDataURL h url ct opts w)))
            (getCacheKey url ct (includeQueryParams opts))
          = Some (fst (resourceToDataURL h url ct opts w))"
proof -
  let ?u = "bustedUrl h opts (length (requests w)) url"
  obtain e where e: "fst (fetchAsDataURL h ?u
               (\<lambda>res result. Inr (getContentFromDataUrl result,
                   if truthy ct then ct else or_empty (contentTypeHeader res))) w) = Inl e"
    using fetchAsDataURL_fails [OF assms(2)] by blast
  have r: "fst (resourceToDataURL h url ct opts w) = or_empty (imagePlaceholder opts)"
    using assms(1) e
    by (auto simp: resourceToDataURL_def Let_def split: prod.splits sum.splits)
  obtain r' w' where rw: "resourceToDataURL h url ct opts w = (r', w')"
    by (cases "resourceToDataURL h url ct opts w")
  have l: "lookupMember h (cache w') (getCacheKey url ct (includeQueryParams opts)) = r'"
    using resourceToDataURL_caches [OF rw] by simp
  have m: "map_of (cache w') (getCacheKey url ct (includeQueryParams opts)) = Some r'"
    using resourceToDataURL_miss [OF assms(1) rw] by (simp add: update_conv')
  show ?thesis
    using r l m rw by (simp add: or_empty_cases)
qed

theorem resourceToDataURL_failure_witness:
  "fst (resourceToDataURL host_404 ''https://example.com/bg.png'' (Str ''image/png'')
          (default_options\<lparr>imagePlaceholder := Str ''data:,''\<rparr>) world0) = Str ''data:,''
   \<and> lookupMember host_404 (cache (snd (resourceToDataURL host_404 ''https://example.com/bg.png''
          (Str ''image/png'') (default_options\<lparr>imagePlaceholder := Str ''data:,''\<rparr>) world0)))
        ''[image/png]https://example.com/bg.png'' = Str ''data:,''"
proof -
  have miss: "nullish (lookupMember host_404 (cache world0)
      (getCacheKey ''https://example.com/bg.png'' (Str ''image/png'')
         (includeQueryParams (default_options\<lparr>imagePlaceholder := Str ''data:,''\<rparr>))))"
    by (simp add: key_bg default_options_def world0_def lookup_fresh)
  have fails: "fetch_fails host_404 (length (requests world0))
      (bustedUrl host_404 (default_options\<lparr>imagePlaceholder := Str ''data:,''\<rparr>)
         (length (requests world0)) ''https://example.com/bg.png'')"
    by (simp add: fetch_fails_def host_404_def response_404_def)
  show ?thesis
    using resourceToDataURL_failure [OF miss fails]
    by (simp add: key_bg default_options_def)
qed

text \<open>A key that names an inherited member is found in the fresh cache: nothing is fetched,
  and the result is the member, not a data URL.\<close>

lemma resourceToDataURL_inherited:
  "resourceToDataURL host_404 ''constructor'' Undefined default_options world0
     = (Obj ''function Object() { [native code] }'', world0)"
proof -
  have k: "getCacheKey ''constructor'' Undefined False = ''constructor''" by code_simp
  have l: "lookupMember host_404 [] ''constructor'' = Obj ''function Object() { [native code] }''"
    by (simp add: lookupMember_def objectPrototype_def host_404_def host_ok_def)
  show ?thesis
    by (simp add: resourceToDataURL_def k l default_options_def world0_def)
qed

lemma resourceToDataURL_halves:
  "resourceToDataURL h url ct opts w =
     (case resourceToDataURL_call h url ct opts w of
        (c, w1) \<Rightarrow> resourceToDataURL_resume h opts c w1)"
  by (simp add: resourceToDataURL_def resourceToDataURL_call_def resourceToDataURL_resume_def
        fetchAsDataURL_def Let_def log_warning_def
        split: option.splits prod.splits sum.splits)

text \<open>
  Two calls with the same key, which is not cached, the second made before the first is
  answered: each makes its own request, the first returns what a call on its own would return,
  and the key is left with the result of the second, which is the last to be answered.
\<close>

lemma overlapping_calls_miss:
  assumes miss: "nullish (lookupMember h (cache w) (getCacheKey url1 ct1 (includeQueryParams o1)))"
      and same: "getCacheKey url2 ct2 (includeQueryParams o2) = getCacheKey url1 ct1 (includeQueryParams o1)"
      and over: "overlapping_calls h url1 ct1 o1 url2 ct2 o2 w = ((ra, rb), w4)"
  shows "ra = fst (resourceToDataURL h url1 ct1 o1 w)
       \<and> requests w4 = requests w @ [bustedUrl h o1 (length (requests w)) url1,
                                       bustedUrl h o2 (Suc (length (requests w))) url2]
       \<and> lookupMember h (cache w4) (getCacheKey url1 ct1 (includeQueryParams o1)) = rb
       \<and> \<not> nullish rb"
proof -
  let ?k = "getCacheKey url1 ct1 (includeQueryParams o1)"
  have np: "?k \<noteq> ''__proto__''" by (rule miss_not_proto [OF miss])
  show ?thesis
    using miss over
    by (auto simp: overlapping_calls_def resourceToDataURL_call_def resourceToDataURL_resume_def
          resourceToDataURL_def fetchAsDataURL_def Let_def log_warning_def same
          lookupMember_update [OF np] or_empty_not_nullish
          split: prod.splits sum.splits option.splits)
qed

lemma overlapping_calls_hit:
  assumes hit: "\<not> nullish (lookupMember h (cache w) (getCacheKey url1 ct1 (includeQueryParams o1)))"
      and same: "getCacheKey url2 ct2 (includeQueryParams o2) = getCacheKey url1 ct1 (includeQueryParams o1)"
  shows "overlapping_calls h url1 ct1 o1 url2 ct2 o2 w
           = ((lookupMember h (cache w) (getCacheKey url1 ct1 (includeQueryParams o1)),
               lookupMember h (cache w) (getCacheKey url1 ct1 (includeQueryParams o1))), w)"
  using hit
  by (simp add: overlapping_calls_def resourceToDataURL_call_def resourceToDataURL_resume_def same)

text \<open>
  C3, as amended. Let a call of \<open>resourceToDataURL\<close> run to its end and return \<open>r1\<close>. A
  later call whose arguments derive the same cache key, made after any number of calls that
  each ran to their end, returns \<open>r1\<close> and leaves the state as it is, the list of requests
  included: it fetches nothing. The first call has made exactly one request when its key was
  not cached, and none when it was. So two references to the same resource whose calls do not
  overlap cause exactly one fetch. Calls that overlap are not deduplicated: when the key is not
  cached and the second call is made before the first is answered, two requests are made, the
  first call returns what it returns on its own, and what later calls return is the result
  \<open>rb\<close> of the call that was answered last.
\<close>

theorem resourceToDataURL_cached:
  assumes "resourceToDataURL h url1 ct1 o1 w = (r1, w1)"
      and "getCacheKey url2 ct2 (includeQueryParams o2) = getCacheKey url1 ct1 (includeQueryParams o1)"
      and "overlapping_calls h url1 ct1 o1 url2 ct2 o2 w = ((ra, rb), w4)"
  shows "resourceToDataURL h url2 ct2 o2 (run_calls h cs w1) = (r1, run_calls h cs w1)
       \<and> (nullish (lookupMember h (cache w) (getCacheKey url1 ct1 (includeQueryParams o1))) \<longrightarrow>
            requests w1 = requests w @ [bustedUrl h o1 (length (requests w)) url1]
          \<and> ra = r1
          \<and> requests w4 = requests w @ [bustedUrl h o1 (length (requests w)) url1,
                                          bustedUrl h o2 (Suc (length (requests w))) url2]
          \<and> resourceToDataURL h url2 ct2 o2 w4 = (rb, w4))
       \<and> (\<not> nullish (lookupMember h (cache w) (getCacheKey url1 ct1 (includeQueryParams o1))) \<longrightarrow>
            w1 = w \<and> w4 = w \<and> ra = r1 \<and> rb = r1)"
proof -
  let ?k = "getCacheKey url1 ct1 (includeQueryParams o1)"
  have c1: "lookupMember h (cache w1) ?k = r1" "\<not> nullish r1"
    using resourceToDataURL_caches [OF assms(1)] by simp_all
  then have "lookupMember h (cache (run_calls h cs w1)) ?k = r1"
    using run_calls_keeps [of h w1 ?k cs] by simp
  with c1(2) have later: "resourceToDataURL h url2 ct2 o2 (run_calls h cs w1) = (r1, run_calls h cs w1)"
    using resourceToDataURL_hit [of h "run_calls h cs w1" url2 ct2 o2] assms(2) by simp
  have miss: "nullish (lookupMember h (cache w) ?k) \<longrightarrow>
            requests w1 = requests w @ [bustedUrl h o1 (length (requests w)) url1]
          \<and> ra = r1
          \<and> requests w4 = requests w @ [bustedUrl h o1 (length (requests w)) url1,
                                          bustedUrl h o2 (Suc (length (requests w))) url2]
          \<and> resourceToDataURL h url2 ct2 o2 w4 = (rb, w4)"
  proof
    assume m: "nullish (lookupMember h (cache w) ?k)"
    note o = overlapping_calls_miss [OF m assms(2,3)]
    from o have "\<not> nullish (lookupMember h (cache w4) ?k)" by simp
    then have "resourceToDataURL h url2 ct2 o2 w4 = (lookupMember h (cache w4) ?k, w4)"
      using resourceToDataURL_hit [of h w4 url2 ct2 o2] assms(2) by simp
    with o resourceToDataURL_miss [OF m assms(1)] assms(1)
    show "requests w1 = requests w @ [bustedUrl h o1 (length (requests w)) url1]
          \<and> ra = r1
          \<and> requests w4 = requests w @ [bustedUrl h o1 (length (requests w)) url1,
                                          bustedUrl h o2 (Suc (length (requests w))) url2]
          \<and> resourceToDataURL h url2 ct2 o2 w4 = (rb, w4)"
      by simp
  qed
  have hit: "\<not> nullish (lookupMember h (cache w) ?k) \<longrightarrow> w1 = w \<and> w4 = w \<and> ra = r1 \<and> rb = r1"
    using resourceToDataURL_hit [of h w url1 ct1 o1]
      overlapping_calls_hit [of h w url1 ct1 o1 url2 ct2 o2] assms by auto
  show ?thesis by (intro conjI later miss hit)
qed

lemma first_call_ok:
  "resourceToDataURL host_ok ''https://example.com/bg.png'' (Str ''image/png'') default_options world0
   = (Str ''data:image/png;base64,iVBORw0KGgo='',
      \<lparr>cache = [(''[image/png]https://example.com/bg.png'', Str ''data:image/png;base64,iVBORw0KGgo='')],
       counter = 0, requests = [''https://example.com/bg.png''], warnings = []\<rparr>)"
  by (simp add: resourceToDataURL_def key_bg lookup_fresh default_options_def world0_def host_ok_def
      response_ok_def bustedUrl_def fetchAsDataURL_def fetchResult_def getContentFromDataUrl_def
      index_or_undefined_def makeDataUrl_def)

lemma overlapping_ok:
  "overlapping_calls host_ok ''https://example.com/bg.png'' (Str ''image/png'') default_options
     ''https://example.com/bg.png?v=2'' (Str ''image/png'') default_options world0
     = ((Str ''data:image/png;base64,iVBORw0KGgo='', Str ''data:image/png;base64,iVBORw0KGgo=''),
        \<lparr>cache = [(''[image/png]https://example.com/bg.png'', Str ''data:image/png;base64,iVBORw0KGgo='')],
         counter = 0,
         requests = [''https://example.com/bg.png'', ''https://example.com/bg.png?v=2''],
         warnings = []\<rparr>)"
proof -
  have iq: "includeQueryParams default_options = False" "cacheBust default_options = False"
    by (simp_all add: default_options_def)
  show ?thesis
    by (simp add: overlapping_calls_def resourceToDataURL_call_def resourceToDataURL_resume_def
        key_bg key_bg_query lookup_fresh iq world0_def host_ok_def response_ok_def bustedUrl_def
        fetchResult_def getContentFromDataUrl_def index_or_undefined_def makeDataUrl_def Let_def)
qed

lemma icon_call_ok:
  "resourceToDataURL host_ok ''https://example.com/icon.png'' (Str ''image/png'') default_options
     \<lparr>cache = [(''[image/png]https://example.com/bg.png'', Str ''data:image/png;base64,iVBORw0KGgo='')],
      counter = 0, requests = [''https://example.com/bg.png''], warnings = []\<rparr>
   = (Str ''data:image/png;base64,iVBORw0KGgo='',
      \<lparr>cache = [(''[image/png]https://example.com/bg.png'', Str ''data:image/png;base64,iVBORw0KGgo=''),
                (''[image/png]https://example.com/icon.png'', Str ''data:image/png;base64,iVBORw0KGgo='')],
       counter = 0, requests = [''https://example.com/bg.png'', ''https://example.com/icon.png''],
       warnings = []\<rparr>)"
proof -
  have l: "\<And>h. lookupMember h
             [(''[image/png]https://example.com/bg.png'', Str ''data:image/png;base64,iVBORw0KGgo='')]
             ''[image/png]https://example.com/icon.png'' = Undefined"
    by (simp add: lookupMember_def objectPrototype_def)
  show ?thesis
    by (simp add: resourceToDataURL_def key_icon l default_options_def host_ok_def
        response_ok_def bustedUrl_def fetchAsDataURL_def fetchResult_def getContentFromDataUrl_def
        index_or_undefined_def makeDataUrl_def Let_def)
qed

theorem resourceToDataURL_cached_witness:
  "resourceToDataURL host_ok ''https://example.com/bg.png?v=2'' (Str ''image/png'') default_options
     (run_calls host_ok [(''https://example.com/icon.png'', Str ''image/png'', default_options)]
        (snd (resourceToDataURL host_ok ''https://example.com/bg.png'' (Str ''image/png'')
                default_options world0)))
   = (Str ''data:image/png;base64,iVBORw0KGgo='',
      \<lparr>cache = [(''[image/png]https://example.com/bg.png'', Str ''data:image/png;base64,iVBORw0KGgo=''),
                (''[image/png]https://example.com/icon.png'', Str ''data:image/png;base64,iVBORw0KGgo='')],
       counter = 0, requests = [''https://example.com/bg.png'', ''https://example.com/icon.png''],
       warnings = []\<rparr>)
   \<and> requests (snd (resourceToDataURL host_ok ''https://example.com/bg.png'' (Str ''image/png'')
                default_options world0)) = requests world0 @ [''https://example.com/bg.png'']
   \<and> requests (snd (overlapping_calls host_ok ''https://example.com/bg.png'' (Str ''image/png'')
                default_options ''https://example.com/bg.png?v=2'' (Str ''image/png'')
                default_options world0))
       = requests world0 @ [''https://example.com/bg.png'', ''https://example.com/bg.png?v=2'']"
proof -
  have iq: "includeQueryParams default_options = False" "cacheBust default_options = False"
    by (simp_all add: default_options_def)
  have w: "requests world0 = []" "cache world0 = []"
    by (simp_all add: world0_def)
  show ?thesis
    using resourceToDataURL_cached [OF first_call_ok _ overlapping_ok,
        where cs = "[(''https://example.com/icon.png'', Str ''image/png'', default_options)]"]
    by (simp add: key_bg key_bg_query first_call_ok overlapping_ok icon_call_ok iq bustedUrl_def
          w lookup_fresh)
qed

theorem overlapping_calls_counterexample:
  "overlapping_calls host_ok ''https://example.com/bg.png'' (Str ''image/png'') default_options
     ''https://example.com/bg.png'' (Str ''image/png'') default_options world0
     = ((Str ''data:image/png;base64,iVBORw0KGgo='', Str ''data:image/png;base64,iVBORw0KGgo=''),
        \<lparr>cache = [(''[image/png]https://example.com/bg.png'', Str ''data:image/png;base64,iVBORw0KGgo='')],
         counter = 0,
         requests = [''https://example.com/bg.png'', ''https://example.com/bg.png''],
         warnings = []\<rparr>)"
proof -
  have iq: "includeQueryParams default_options = False" "cacheBust default_options = False"
    by (simp_all add: default_options_def)
  show ?thesis
    by (simp add: overlapping_calls_def resourceToDataURL_call_def resourceToDataURL_resume_def
        key_bg lookup_fresh iq world0_def host_ok_def response_ok_def bustedUrl_def fetchResult_def
        getContentFromDataUrl_def index_or_undefined_def makeDataUrl_def Let_def)
qed

text \<open>
  With a host that answers the first request and fails on the second, the call that is
  answered last overwrites the entry of the first: the first call has returned the data URL,
  and every later call returns the empty string.
\<close>

lemma overlapping_calls_flaky:
  "overlapping_calls host_flaky ''https://example.com/bg.png'' (Str ''image/png'') default_options
     ''https://example.com/bg.png'' (Str ''image/png'') default_options world0
     = ((Str ''data:image/png;base64,iVBORw0KGgo='', Str []),
        \<lparr>cache = [(''[image/png]https://example.com/bg.png'', Str [])],
         counter = 0,
         requests = [''https://example.com/bg.png'', ''https://example.com/bg.png''],
         warnings = [''Resource '' @ [DQ] @ ''https://example.com/bg.png'' @ [DQ] @ '' not found'']\<rparr>)"
proof -
  have iq: "includeQueryParams default_options = False" "cacheBust default_options = False"
      "imagePlaceholder default_options = Undefined"
    by (simp_all add: default_options_def)
  show ?thesis
    by (simp add: overlapping_calls_def resourceToDataURL_call_def resourceToDataURL_resume_def
        key_bg lookup_fresh iq world0_def host_flaky_def host_ok_def response_ok_def response_404_def
        bustedUrl_def fetchResult_def getContentFromDataUrl_def index_or_undefined_def
        makeDataUrl_def or_empty_def log_warning_def Let_def)
qed

lemma later_call_after_flaky:
  "fst (resourceToDataURL host_flaky ''https://example.com/bg.png'' (Str ''image/png'') default_options
     (snd (overlapping_calls host_flaky ''https://example.com/bg.png'' (Str ''image/png'')
             default_options ''https://example.com/bg.png'' (Str ''image/png'')
             default_options world0))) = Str []"
proof -
  have iq: "includeQueryParams default_options = False"
    by (simp add: default_options_def)
  have l: "lookupMember host_flaky [(''[image/png]https://example.com/bg.png'', Str [])]
             ''[image/png]https://example.com/bg.png'' = Str []"
    by (simp add: lookupMember_def)
  show ?thesis
    by (simp add: overlapping_calls_flaky resourceToDataURL_def key_bg iq l)
qed

subsection \<open>The cache key\<close>

text \<open>
  C4. The key is the URL without its query string unless \<open>includeQueryParams\<close> is set, the
  directories are dropped from a font URL, and a content type is put in front. The font test of
  the code does not look at the extension: it accepts every key in which one of the letter
  sequences ttf, otf, eot, woff occurs anywhere. Here it occurs in the host name, and two
  different PNG images get the same key.
\<close>

theorem getCacheKey_substring_collision:
  "getCacheKey ''https://hotfix.example.com/a/logo.png'' Undefined False = ''logo.png''
 \<and> getCacheKey ''https://hotfix.example.com/b/logo.png'' Undefined False = ''logo.png''"
  by code_simp

lemma getCacheKey_font_url:
  "getCacheKey ''https://cdn.example.com/fonts/f.woff2?v=1'' (Str ''application/font-woff'') False
     = ''[application/font-woff]f.woff2''"
  by code_simp

subsection \<open>The rule extractor\<close>

text \<open>
  C6. On the text of the scenario \<open>parseCSS\<close> returns exactly two fragments: the keyframes
  block first, then the rule of \<open>.a\<close> (with the blank that precedes it in the source).
\<close>

theorem parseCSS_keyframes_scenario:
  "parseCSS (Some ''@keyframes spin{0%{opacity:0}100%{opacity:1}} .a{color:red}'')
   = Some [''@keyframes spin{0%{opacity:0}100%{opacity:1}}'', '' .a{color:red}'']"
  by code_simp

subsection \<open>The preferred font format\<close>

lemma filterPreferredFontFormat_no_preference:
  "\<not> truthy (preferredFontFormat opts) \<Longrightarrow> filterPreferredFontFormat str opts li = Some (str, li)"
  by (simp add: filterPreferredFontFormat_def)

lemma filterPreferredFontFormat_scenario_fresh:
  "filterPreferredFontFormat src_example woff2_options 0 = Some (src_filtered, 33)"
  by code_simp

lemma filterPreferredFontFormat_second_call:
  "filterPreferredFontFormat src_example woff2_options 33 = Some ([], 0)"
  by code_simp

text \<open>
  C7. Without a preferred format the text is returned as it is, and from a fresh pattern state
  the declaration of the scenario is filtered as described (the two lemmas above). The format
  pattern keeps its \<open>lastIndex\<close> when the callback returns on a hit, so the next declaration
  list is searched from that index on: in a text with two font-face blocks that both offer woff2,
  the second block loses its whole \<open>src\<close> declaration.
\<close>

theorem filterPreferredFontFormat_second_declaration:
  "filterPreferredFontFormat
     (''@font-face{font-family:A;'' @ src_example @ ''}@font-face{font-family:B;'' @ src_example @ ''}'')
     woff2_options 0
   = Some (''@font-face{font-family:A;'' @ src_filtered @ ''}@font-face{font-family:B;}'', 0)"
  by code_simp

subsection \<open>The class-name generator\<close>

lemma digit_val_digit_of_list: "\<forall>d \<in> set [0..<36]. digit_val (digit_of d) = d"
  by code_simp

lemma digit_val_digit_of: "d < 36 \<Longrightarrow> digit_val (digit_of d) = d"
  using digit_val_digit_of_list by simp

lemma from_radix_snoc: "from_radix b (s @ [c]) = from_radix b s * b + digit_val c"
  by (simp add: from_radix_def)

lemma from_radix_to_radix:
  "2 \<le> b \<Longrightarrow> b \<le> 36 \<Longrightarrow> from_radix b (to_radix b n) = n"
proof (induction b n rule: to_radix.induct)
  case (1 b n)
  show ?case
  proof (cases "n < b")
    case True
    then have "to_radix b n = [digit_of n]" by (simp add: to_radix.simps)
    moreover have "n < 36" using True 1(3) by simp
    ultimately show ?thesis by (simp add: from_radix_def digit_val_digit_of)
  next
    case False
    then have eq: "to_radix b n = to_radix b (n div b) @ [digit_of (n mod b)]"
      using 1(2) by (simp add: to_radix.simps)
    have ih: "from_radix b (to_radix b (n div b)) = n div b"
      using 1(1) False 1(2) 1(3) by simp
    have "n mod b < b" using 1(2) by simp
    then have "n mod b < 36" using 1(3) by simp
    then show ?thesis
      by (simp add: eq from_radix_snoc ih digit_val_digit_of)
  qed
qed

lemma dec_inj: "dec a = dec b \<Longrightarrow> a = b"
proof -
  assume h: "dec a = dec b"
  have le: "(2::nat) \<le> 10" "(10::nat) \<le> 36" by simp_all
  have "from_radix 10 (to_radix 10 a) = a" "from_radix 10 (to_radix 10 b) = b"
    by (rule from_radix_to_radix [OF le])+
  with h show ?thesis unfolding dec_def by metis
qed

lemma digit_of_alphabet: "d < 36 \<Longrightarrow> digit_of d \<in> set ''0123456789abcdefghijklmnopqrstuvwxyz''"
  unfolding digit_of_def by (rule nth_mem) simp

lemma to_radix36_alphabet: "set (to_radix 36 n) \<subseteq> set ''0123456789abcdefghijklmnopqrstuvwxyz''"
proof (induction "36::nat" n rule: to_radix.induct)
  case (1 n)
  show ?case
  proof (cases "n < 36")
    case True
    then show ?thesis using digit_of_alphabet [of n] by (simp add: to_radix.simps)
  next
    case False
    have "n mod 36 < 36" by simp
    then have "digit_of (n mod 36) \<in> set ''0123456789abcdefghijklmnopqrstuvwxyz''"
      by (rule digit_of_alphabet)
    moreover have "set (to_radix 36 (n div 36)) \<subseteq> set ''0123456789abcdefghijklmnopqrstuvwxyz''"
      using 1 False by simp
    ultimately show ?thesis using False by (subst to_radix.simps) simp
  qed
qed

lemma random4_length: "length (random4 n) = 4"
  by (simp add: random4_def Let_def)

lemma random4_alphabet: "set (random4 n) \<subseteq> set ''0123456789abcdefghijklmnopqrstuvwxyz''"
proof -
  have "set (random4 n) \<subseteq> set (''0000'' @ to_radix 36 n)"
    unfolding random4_def Let_def by (rule set_drop_subset)
  also have "\<dots> \<subseteq> set ''0123456789abcdefghijklmnopqrstuvwxyz''"
    using to_radix36_alphabet [of n] by auto
  finally show ?thesis .
qed

lemma uuid_inj:
  assumes "fst (uuid h1 w1) = fst (uuid h2 w2)"
  shows "counter w1 = counter w2"
proof -
  from assms have "random4 (randomDraw h1 (counter w1 + 1)) @ dec (counter w1 + 1)
      = random4 (randomDraw h2 (counter w2 + 1)) @ dec (counter w2 + 1)"
    by (simp add: uuid_def Let_def)
  then have "dec (counter w1 + 1) = dec (counter w2 + 1)"
    by (simp add: random4_length)
  then show ?thesis using dec_inj by fastforce
qed

lemma uuid_counter: "counter (snd (uuid h w)) = Suc (counter w)"
  by (simp add: uuid_def Let_def)

lemma uuid_calls_nth:
  "i < n \<Longrightarrow> uuid_calls h n w ! i
     = ''u'' @ random4 (randomDraw h (counter w + i + 1)) @ dec (counter w + i + 1)"
proof (induction n arbitrary: w i)
  case 0
  then show ?case by simp
next
  case (Suc n)
  show ?case
  proof (cases i)
    case 0
    then show ?thesis by (simp add: uuid_def Let_def)
  next
    case (Suc j)
    then have "j < n" using Suc.prems by simp
    from Suc.IH [OF this, of "snd (uuid h w)"] Suc show ?thesis
      by (simp add: uuid_counter)
  qed
qed

lemma uuid_calls_length: "length (uuid_calls h n w) = n"
  by (induction n arbitrary: w) simp_all

text \<open>
  C10. The results of any number of successive calls of \<open>uuid\<close> are pairwise different, and
  the result of call \<open>i\<close> is the letter \<open>u\<close>, four characters of the base-36 alphabet and
  the decimal digits of the counter, which is one more at every call. (The counter is a natural
  number here; the double of the source stops growing after \<open>2^53\<close> calls.)
\<close>

theorem uuid_distinct:
  "distinct (uuid_calls h n w)
   \<and> (\<forall>i<n. \<exists>r. uuid_calls h n w ! i = ''u'' @ r @ dec (counter w + i + 1)
          \<and> length r = 4 \<and> set r \<subseteq> set ''0123456789abcdefghijklmnopqrstuvwxyz'')"
proof
  show "distinct (uuid_calls h n w)"
  proof (rule iffD2 [OF distinct_conv_nth], intro allI impI)
    fix i j
    assume i: "i < length (uuid_calls h n w)" and j: "j < length (uuid_calls h n w)" and ne: "i \<noteq> j"
    show "uuid_calls h n w ! i \<noteq> uuid_calls h n w ! j"
    proof
      assume eq: "uuid_calls h n w ! i = uuid_calls h n w ! j"
      from i j have "i < n" "j < n" by (simp_all add: uuid_calls_length)
      with eq have "random4 (randomDraw h (counter w + i + 1)) @ dec (counter w + i + 1)
         = random4 (randomDraw h (counter w + j + 1)) @ dec (counter w + j + 1)"
        by (simp add: uuid_calls_nth)
      then have "dec (counter w + i + 1) = dec (counter w + j + 1)"
        by (simp add: random4_length)
      then have "counter w + i + 1 = counter w + j + 1" by (rule dec_inj)
      with ne show False by simp
    qed
  qed
next
  show "\<forall>i<n. \<exists>r. uuid_calls h n w ! i = ''u'' @ r @ dec (counter w + i + 1)
          \<and> length r = 4 \<and> set r \<subseteq> set ''0123456789abcdefghijklmnopqrstuvwxyz''"
    using uuid_calls_nth random4_length random4_alphabet by blast
qed

theorem uuid_distinct_witness:
  "distinct (uuid_calls host_ok 3 world0)
   \<and> uuid_calls host_ok 3 world0 = [''u00001'', ''u00002'', ''u00003'']"
  using uuid_distinct [of host_ok 3 world0]
  by (simp add: eval_nat_numeral uuid_def Let_def host_ok_def world0_def random4_def dec_def to_radix.simps digit_of_def)

subsection \<open>Generated content\<close>

lemma match_at_quote:
  "match_at quoteRegex s = (case s of [] \<Rightarrow> None | x # xs \<Rightarrow> if notq x then None else Some (1, []))"
  by (cases s) (auto simp: match_at_def quoteRegex_def)

lemma search_quote:
  "search quoteRegex s =
     (if \<forall>c \<in> set s. notq c then None else Some (length (takeWhile notq s), 1, []))"
  by (induction s) (auto simp: match_at_quote)

lemma replace_quote_none:
  assumes "\<forall>c \<in> set s. notq c"
  shows "replace_with quoteRegex (\<lambda>m st. Some ([], st)) s st0 = Some (s, st0)"
  using assms by (subst replace_with.simps) (simp add: search_quote)

lemma replace_quote_step:
  assumes sq: "search quoteRegex s = Some (i, 1, [])" and ne: "s \<noteq> []"
   and ih: "replace_with quoteRegex (\<lambda>m st. Some ([], st)) (drop (Suc i) s) st0
                 = Some (r, st0)"
 shows "replace_with quoteRegex (\<lambda>m st. Some ([], st)) s st0
            = Some (take i s @ r, st0)"
  by (subst replace_with.simps) (simp add: sq ne ih)

lemma filter_after_quote:
  assumes "\<not> (\<forall>c \<in> set s. notq c)"
  shows "filter notq s = takeWhile notq s @ filter notq (drop (Suc (length (takeWhile notq s))) s)"
  using assms
proof (induction s)
  case Nil
  then show ?case by simp
next
  case (Cons x xs)
  then show ?case by (cases "notq x") auto
qed

lemma take_takeWhile: "take (length (takeWhile P s)) s = takeWhile P s"
  by (induction s) auto

lemma replace_with_quote:
  "replace_with quoteRegex (\<lambda>m st. Some ([], st)) s st0 = Some (filter notq s, st0)"
proof (induction s rule: length_induct)
  case (1 s)
  show ?case
  proof (cases "\<forall>c \<in> set s. notq c")
    case True
    then have "filter notq s = s" by (simp add: filter_id_conv)
    with replace_quote_none [OF True] show ?thesis by simp
  next
    case False
    let ?i = "length (takeWhile notq s)"
    have ne: "s \<noteq> []" using False by auto
    have "length (drop (Suc ?i) s) < length s" using ne by (cases s) auto
    with 1 have ih: "replace_with quoteRegex (\<lambda>m st. Some ([], st)) (drop (Suc ?i) s) st0
                 = Some (filter notq (drop (Suc ?i) s), st0)"
      by blast
    have sq: "search quoteRegex s = Some (?i, 1, [])"
      using False by (simp add: search_quote)
    have "replace_with quoteRegex (\<lambda>m st. Some ([], st)) s st0
            = Some (take ?i s @ filter notq (drop (Suc ?i) s), st0)"
      by (rule replace_quote_step [OF sq ne ih])
    also have "take ?i s @ filter notq (drop (Suc ?i) s) = filter notq s"
      unfolding take_takeWhile using filter_after_quote [OF False] by (rule sym)
    finally show ?thesis .
  qed
qed

lemma strip_quotes: "replace_all quoteRegex [] s = filter notq s"
  unfolding replace_all_def replace_with_quote by simp

lemma rule_texts_appendChild:
  "rule_texts (appendChild n c) = rule_texts n @
     (if iface (data c) = HTMLStyleElement then [concat (map (\<lambda>t. nodeValue (data t)) (childNodes c))] else [])"
  by (simp add: rule_texts_def appendChild_def)

lemma rule_texts_set_className: "rule_texts (set_className c n) = rule_texts n"
  by (simp add: rule_texts_def set_className_def)

lemma appendChild_sel:
  "data (appendChild n c) = data n" "childNodes (appendChild n c) = childNodes n @ [c]"
  by (simp_all add: appendChild_def)

lemma createElement_sel:
  "iface (data (createElement i tag)) = i" "childNodes (createElement i tag) = []"
  by (simp_all add: createElement_def blank_data_def)

lemma createTextNode_sel: "nodeValue (data (createTextNode t)) = t"
  by (simp add: createTextNode_def blank_data_def)

text \<open>
  C8, as amended. For a pseudo-element whose resolved content is neither empty nor \<open>none\<close>
  (and a clone whose class name can be assigned), one style rule is added to the clone. When the
  resolved style has a serialised text, the rule is that text followed by a content declaration
  whose literal is the resolved value without its single and double quotes, between single
  quotes. When the resolved style has no serialised text, the properties are written one by one
  and the content keeps its resolved value as it is.
\<close>

theorem clonePseudoElement_rule:
  assumes "getPropertyValue (getComputedStyle nativeNode (Some ps)) ''content'' = content"
      and "content \<noteq> []" and "content \<noteq> ''none''"
      and "\<not> classNameThrows (data clonedNode)"
  shows "rule_texts (fst (clonePseudoElement h nativeNode clonedNode ps w)) =
           rule_texts clonedNode @
           [''.'' @ fst (uuid h w) @ '':'' @ pseudo_text ps @ ''{''
             @ (if cssText (getComputedStyle nativeNode (Some ps)) \<noteq> []
                then cssText (getComputedStyle nativeNode (Some ps)) @ '' content: '' @ [SQ]
                       @ filter (\<lambda>c. c \<noteq> SQ \<and> c \<noteq> DQ) content @ [SQ] @ '';''
                else formatCSSProperties (getComputedStyle nativeNode (Some ps)))
             @ ''}'']
       \<and> SQ \<notin> set (filter (\<lambda>c. c \<noteq> SQ \<and> c \<noteq> DQ) content)
       \<and> DQ \<notin> set (filter (\<lambda>c. c \<noteq> SQ \<and> c \<noteq> DQ) content)"
  using assms
  by (auto simp: clonePseudoElement_def Let_def rule_texts_appendChild rule_texts_set_className
        getPseudoElementStyle_def appendChild_sel createElement_sel createTextNode_sel
        formatCSSText_def strip_quotes split: prod.splits)

lemma rule_texts_div_clone: "rule_texts div_clone = []"
  by (simp add: rule_texts_def div_clone_def createElement_def)

lemma uuid_first_pair: "uuid host_ok world0 = (''u00001'', world0\<lparr>counter := 1\<rparr>)"
  by (simp add: uuid_def Let_def host_ok_def world0_def random4_def dec_def to_radix.simps digit_of_def)

lemma uuid_first: "fst (uuid host_ok world0) = ''u00001''"
  by (simp add: uuid_first_pair)

theorem clonePseudoElement_rule_witness:
  "rule_texts (fst (clonePseudoElement host_ok native_serialised div_clone BEFORE world0)) =
     [''.u00001::before{color: red; content: '' @ [SQ] @ ''its '' @ [CHR 0x5C] @ ''quoted''
        @ [CHR 0x5C] @ [SQ] @ '';}'']"
proof -
  have c: "getPropertyValue (getComputedStyle native_serialised (Some BEFORE)) ''content''
             = quoted_content"
    by (simp add: getComputedStyle_def native_serialised_def getPropertyValue_def blank_data_def)
  have t: "cssText (getComputedStyle native_serialised (Some BEFORE)) = ''color: red;''"
    by (simp add: getComputedStyle_def native_serialised_def blank_data_def)
  have ne: "quoted_content \<noteq> []" "quoted_content \<noteq> ''none''"
    by (simp_all add: quoted_content_def)
  have nt: "\<not> classNameThrows (data div_clone)"
    by (simp add: div_clone_def createElement_def blank_data_def)
  have f: "filter (\<lambda>c. c \<noteq> SQ \<and> c \<noteq> DQ) quoted_content
             = ''its '' @ [CHR 0x5C] @ ''quoted'' @ [CHR 0x5C]"
    by (simp add: quoted_content_def)
  show ?thesis
    using clonePseudoElement_rule [OF c ne nt, of host_ok world0]
    by (simp add: t f uuid_first rule_texts_div_clone)
qed

theorem clonePseudoElement_unserialised_counterexample:
  "rule_texts (fst (clonePseudoElement host_ok native_unserialised div_clone BEFORE world0)) =
     [''.u00001::before{content: '' @ [DQ] @ ''x'' @ [DQ] @ '';}'']
   \<and> \<not> contains (''content: '' @ [SQ] @ ''x'' @ [SQ])
         (''.u00001::before{content: '' @ [DQ] @ ''x'' @ [DQ] @ '';}'')"
proof
  have st: "getComputedStyle native_unserialised (Some BEFORE)
              = \<lparr>cssText = [], properties = [(''content'', [DQ] @ ''x'' @ [DQ], [])]\<rparr>"
    by (simp add: getComputedStyle_def native_unserialised_def blank_data_def)
  have nt: "\<not> classNameThrows (data div_clone)"
    by (simp add: div_clone_def createElement_def blank_data_def)
  show "rule_texts (fst (clonePseudoElement host_ok native_unserialised div_clone BEFORE world0)) =
     [''.u00001::before{content: '' @ [DQ] @ ''x'' @ [DQ] @ '';}'']"
    by (simp add: clonePseudoElement_def Let_def st nt uuid_first_pair rule_texts_appendChild
        rule_texts_set_className getPseudoElementStyle_def appendChild_sel createElement_sel
        createTextNode_sel formatCSSProperties_def property_names_def getPropertyPriority_def
        rule_texts_div_clone getPropertyValue_def)
  show "\<not> contains (''content: '' @ [SQ] @ ''x'' @ [SQ])
         (''.u00001::before{content: '' @ [DQ] @ ''x'' @ [DQ] @ '';}'')"
    by code_simp
qed

subsection \<open>The font size on the clone\<close>

lemmas num_eval = parseFloat_def is_space_def is_digit_def from_radix_def digit_val_def
  reducedFont_def fraction_digits_def dec_def to_radix.simps digit_of_def Let_def

lemma foldl_setProperty:
  assumes "v n \<noteq> [] \<longrightarrow> validValue h n (v n)"
  shows "map_of (properties (foldl (\<lambda>st name. setProperty h name (v name) (p name) st) st0 names)) n
     = (if n \<in> set names then (if v n = [] then None else Some (v n, p n))
        else map_of (properties st0) n)"
proof (induction names arbitrary: st0)
  case Nil
  then show ?case by simp
next
  case (Cons x xs)
  show ?case
    unfolding foldl_Cons Cons.IH
    using assms by (auto simp: setProperty_def update_conv' delete_conv')
qed

lemma property_name_present:
  "getPropertyValue st name \<noteq> [] \<Longrightarrow> name \<in> set (property_names st)"
proof -
  assume ne: "getPropertyValue st name \<noteq> []"
  then obtain y where "map_of (properties st) name = Some y"
    by (cases "map_of (properties st) name") (auto simp: getPropertyValue_def)
  then have "(name, y) \<in> set (properties st)" by (rule map_of_SomeD)
  then have "fst (name, y) \<in> fst ` set (properties st)" by (rule imageI)
  then show ?thesis by (simp add: property_names_def)
qed

lemma adjustedValue_font_size:
  assumes "getPropertyValue sourceStyle ''font-size'' = s @ ''px''"
      and "parseFloat h s = Dec m k"
      and "\<bar>m div 10 ^ k\<bar> < 10 ^ 14"
  shows "adjustedValue h nativeNode clonedNode sourceStyle ''font-size''
           = num_text (Dec (10 * (m div 10 ^ k) - 1) 1) @ ''px''"
proof -
  have "reducedFont h (s @ ''px'') = num_text (Dec (10 * (m div 10 ^ k) - 1) 1) @ ''px''"
    using assms(2,3) by (simp add: reducedFont_def del: num_text.simps)
  moreover have "endsWith (s @ ''px'') ''px''"
    by (simp add: endsWith_def)
  ultimately show ?thesis
    using assms(1) by (simp add: adjustedValue_def Let_def del: num_text.simps split: option.splits)
qed

text \<open>
  What the per-property path does with a font size in pixels: when the computed style has no
  serialised text and the resolved font size is a number \<open>v = m / 10^k\<close> followed by
  \<open>px\<close>, the value given to \<open>setProperty\<close> is \<open>floor v - 0.1\<close> pixels, and it is the
  font size of the clone when the style declaration accepts it. The value is rounded down to
  an integer before the tenth is taken off.
\<close>

lemma cloneCSSStyle_font_size_floor:
  assumes "style (data clonedNode) = Some targetStyle"
      and "cssText (getComputedStyle nativeNode None) = []"
      and "getPropertyValue (getComputedStyle nativeNode None) ''font-size'' = s @ ''px''"
      and "parseFloat h s = Dec m k"
      and "\<bar>m div 10 ^ k\<bar> < 10 ^ 14"
      and "validValue h ''font-size'' (num_text (Dec (10 * (m div 10 ^ k) - 1) 1) @ ''px'')"
  shows "inlineValue (cloneCSSStyle h nativeNode clonedNode) ''font-size''
           = num_text (Dec (10 * (m div 10 ^ k) - 1) 1) @ ''px''"
proof -
  let ?src = "getComputedStyle nativeNode None"
  let ?r = "num_text (Dec (10 * (m div 10 ^ k) - 1) 1) @ ''px''"
  have mem: "''font-size'' \<in> set (property_names ?src)"
    using assms(3) by (intro property_name_present) simp
  have adj: "adjustedValue h nativeNode clonedNode ?src ''font-size'' = ?r"
    by (rule adjustedValue_font_size [OF assms(3,4,5)])
  have ne: "?r \<noteq> []" by simp
  have "map_of (properties (foldl (\<lambda>st name. setProperty h name
                                        (adjustedValue h nativeNode clonedNode ?src name)
                                        (getPropertyPriority ?src name) st)
                      targetStyle (property_names ?src))) ''font-size''
        = (if ''font-size'' \<in> set (property_names ?src)
           then (if adjustedValue h nativeNode clonedNode ?src ''font-size'' = [] then None
                 else Some (adjustedValue h nativeNode clonedNode ?src ''font-size'',
                            getPropertyPriority ?src ''font-size''))
           else map_of (properties targetStyle) ''font-size'')"
    by (rule foldl_setProperty) (use assms(6) in \<open>simp add: adj del: num_text.simps\<close>)
  then have "map_of (properties (foldl (\<lambda>st name. setProperty h name
                                        (adjustedValue h nativeNode clonedNode ?src name)
                                        (getPropertyPriority ?src name) st)
                      targetStyle (property_names ?src))) ''font-size''
        = Some (?r, getPropertyPriority ?src ''font-size'')"
    using mem ne unfolding adj by (simp del: num_text.simps)
  then show ?thesis
    using assms(1,2)
    by (simp add: cloneCSSStyle_def Let_def inlineValue_def set_style_def getPropertyValue_def
          del: num_text.simps)
qed

lemma tenth_below:
  assumes n: "1 \<le> n"
  shows "num_text (Dec (10 * n - 1) 1) = dec (nat (n - 1)) @ ''.9''"
proof -
  have a: "nat \<bar>10 * n - 1\<bar> = 10 * nat (n - 1) + 9" using n by (simp add: nat_eq_iff)
  have d: "(10 * nat (n - 1) + 9) div 10 ^ 1 = nat (n - 1)" by simp
  have m: "(10 * nat (n - 1) + 9) mod 10 ^ 1 = 9" by simp
  have f: "fraction_digits 1 9 = ''9''"
    by (simp add: fraction_digits_def dec_def to_radix.simps digit_of_def)
  have neg: "\<not> 10 * n - 1 < 0" using n by simp
  show ?thesis
    unfolding num_text.simps a d m f using neg by simp
qed

lemma parseFloat_sixteen_half: "parseFloat h ''16.5'' = Dec 165 1"
  by (simp add: num_eval)

lemma text_fifteen_nine: "num_text (Dec (10 * (165 div 10 ^ 1) - 1) 1) @ ''px'' = ''15.9px''"
  by (simp add: num_eval)

text \<open>
  C9. The code computes \<open>Math.floor(parseFloat(...)) - 0.1\<close>: the resolved value is rounded
  down to an integer before the tenth is taken off. For every node whose resolved font size is
  \<open>16.5px\<close> (no serialised text in the computed style, a clone with a style declaration
  that accepts \<open>15.9px\<close>) the font size put on the clone is \<open>15.9px\<close>, where the claim, and
  the description of \<open>cloneCSSStyle\<close> in the source (the font size is reduced by 0.1
  pixels), give \<open>16.4px\<close>.
\<close>

theorem cloneCSSStyle_floors_font_size:
  assumes "style (data clonedNode) = Some targetStyle"
      and "cssText (getComputedStyle nativeNode None) = []"
      and "getPropertyValue (getComputedStyle nativeNode None) ''font-size'' = ''16.5px''"
      and "validValue h ''font-size'' ''15.9px''"
  shows "inlineValue (cloneCSSStyle h nativeNode clonedNode) ''font-size'' = ''15.9px''
       \<and> inlineValue (cloneCSSStyle h nativeNode clonedNode) ''font-size'' \<noteq> ''16.4px''"
proof -
  have v: "getPropertyValue (getComputedStyle nativeNode None) ''font-size'' = ''16.5'' @ ''px''"
    using assms(3) by simp
  have b: "\<bar>165 div 10 ^ 1\<bar> < (10::int) ^ 14" by simp
  have ok: "validValue h ''font-size'' (num_text (Dec (10 * (165 div 10 ^ 1) - 1) 1) @ ''px'')"
    unfolding text_fifteen_nine by (rule assms(4))
  have "inlineValue (cloneCSSStyle h nativeNode clonedNode) ''font-size''
          = num_text (Dec (10 * (165 div 10 ^ 1) - 1) 1) @ ''px''"
    by (rule cloneCSSStyle_font_size_floor [OF assms(1,2) v parseFloat_sixteen_half b ok])
  then have "inlineValue (cloneCSSStyle h nativeNode clonedNode) ''font-size'' = ''15.9px''"
    unfolding text_fifteen_nine .
  then show ?thesis by simp
qed

theorem cloneCSSStyle_floors_font_size_witness:
  "inlineValue (cloneCSSStyle host_ok native_font div_clone) ''font-size'' = ''15.9px''
   \<and> inlineValue (cloneCSSStyle host_ok native_font div_clone) ''font-size'' \<noteq> ''16.4px''"
proof -
  have a: "style (data div_clone) = Some empty_style"
    by (simp add: div_clone_def createElement_def blank_data_def)
  have b: "cssText (getComputedStyle native_font None) = []"
    by (simp add: getComputedStyle_def native_font_def blank_data_def)
  have c: "getPropertyValue (getComputedStyle native_font None) ''font-size'' = ''16.5px''"
    by (simp add: getComputedStyle_def native_font_def blank_data_def getPropertyValue_def)
  have d: "validValue host_ok ''font-size'' ''15.9px''"
    by (simp add: host_ok_def)
  show ?thesis
    using cloneCSSStyle_floors_font_size [OF a b c d] by simp
qed

text \<open>For a whole number of pixels the code does what the description says: 16 pixels
  become 15.9.\<close>

lemma cloneCSSStyle_font_size_integer:
  assumes "style (data clonedNode) = Some targetStyle"
      and "cssText (getComputedStyle nativeNode None) = []"
      and "getPropertyValue (getComputedStyle nativeNode None) ''font-size'' = ''16px''"
      and "validValue h ''font-size'' ''15.9px''"
  shows "inlineValue (cloneCSSStyle h nativeNode clonedNode) ''font-size'' = ''15.9px''"
proof -
  have v: "getPropertyValue (getComputedStyle nativeNode None) ''font-size'' = ''16'' @ ''px''"
    using assms(3) by simp
  have p: "parseFloat h ''16'' = Dec 16 0" by (simp add: num_eval)
  have t: "num_text (Dec (10 * (16 div 10 ^ 0) - 1) 1) @ ''px'' = ''15.9px''"
    by (simp add: num_eval)
  have b: "\<bar>16 div 10 ^ 0\<bar> < (10::int) ^ 14" by simp
  have ok: "validValue h ''font-size'' (num_text (Dec (10 * (16 div 10 ^ 0) - 1) 1) @ ''px'')"
    unfolding t by (rule assms(4))
  have "inlineValue (cloneCSSStyle h nativeNode clonedNode) ''font-size''
          = num_text (Dec (10 * (16 div 10 ^ 0) - 1) 1) @ ''px''"
    by (rule cloneCSSStyle_font_size_floor [OF assms(1,2) v p b ok])
  then show ?thesis unfolding t .
qed

text \<open>A resolved size below one pixel gives a negative value, which a style declaration
  that rejects negative sizes does not take: the clone is left without a font size.\<close>

lemma cloneCSSStyle_font_size_rejected:
  "inlineValue (cloneCSSStyle host_ok
       (Node (blank_data\<lparr>iface := OtherElement, tagName := Some ''DIV'',
                computed := \<lparr>cssText = [], properties = [(''font-size'', ''0px'', [])]\<rparr>\<rparr>)
             [] None None None)
       div_clone) ''font-size'' = []"
proof -
  have a: "style (data div_clone) = Some empty_style"
    by (simp add: div_clone_def createElement_def blank_data_def)
  have c: "getAttribute div_clone ''d'' = None"
    by (simp add: getAttribute_def div_clone_def createElement_def blank_data_def)
  have r: "reducedFont host_ok ''0px'' = ''-0.1px''"
    by (simp add: num_eval)
  have v: "\<not> validValue host_ok ''font-size'' ''-0.1px''"
    by (simp add: host_ok_def)
  show ?thesis
    by (simp add: cloneCSSStyle_def a c r v inlineValue_def set_style_def property_names_def
        adjustedValue_def getPropertyValue_def getPropertyPriority_def setProperty_def
        empty_style_def endsWith_def getComputedStyle_def blank_data_def)
qed

subsection \<open>The font-embedding stage\<close>

text \<open>
  C1. A supplied font CSS text is used as it is, \<open>skipFonts\<close> skips the stage, the discovery
  runs otherwise, and a text that is not empty becomes the first child of the clone: this is what
  the code does when \<open>fontEmbedCSS\<close> is \<open>null\<close> or a string (the lemmas below). The test of
  the code is \<open>fontEmbedCSS !== null\<close>, so an option that was not set at all (\<open>undefined\<close>,
  as in the default options \<open>{}\<close> of \<open>toSvg\<close>) is taken as the text: the discovery is not
  run and nothing is inserted, whatever \<open>skipFonts\<close> says and whatever the discovery would find.
\<close>

theorem embedWebFonts_undefined:
  "embedWebFonts h clonedNode (opts\<lparr>fontEmbedCSS := Undefined\<rparr>) w = (Inr clonedNode, w)"
  by (simp add: embedWebFonts_def)

lemma embedWebFonts_default_options:
  "embedWebFonts host_fonts div_clone default_options world0 = (Inr div_clone, world0)"
  by (simp add: embedWebFonts_def default_options_def)

lemma embedWebFonts_null_discovers:
  "embedWebFonts host_fonts div_clone (default_options\<lparr>fontEmbedCSS := Null\<rparr>) world0
     = (Inr (appendChild div_clone (styleElementWith ''@font-face{font-family:A}'')), world0)"
  by (simp add: embedWebFonts_def default_options_def host_fonts_def host_ok_def styleElementWith_def
        div_clone_def createElement_def)

lemma embedWebFonts_supplied:
  assumes "fontEmbedCSS opts = Str css"
  shows "embedWebFonts h clonedNode opts w =
           (Inr (if css = [] then clonedNode
                 else Node (data clonedNode) (styleElementWith css # childNodes clonedNode)
                        (shadowRoot clonedNode) (assignedNodes clonedNode) (contentBody clonedNode)), w)"
  using assms
  by (simp add: embedWebFonts_def Let_def styleElementWith_def insertFirst_def appendChild_def)

lemma embedWebFonts_skipped:
  assumes "fontEmbedCSS opts = Null" and "skipFonts opts"
  shows "embedWebFonts h clonedNode opts w = (Inr clonedNode, w)"
  using assms by (simp add: embedWebFonts_def)

lemma embedWebFonts_discovered:
  assumes "fontEmbedCSS opts = Null" and "\<not> skipFonts opts"
      and "webFontCSS h clonedNode opts w = (Inr css, w')"
  shows "embedWebFonts h clonedNode opts w =
           (Inr (if css = [] then clonedNode
                 else Node (data clonedNode) (styleElementWith css # childNodes clonedNode)
                        (shadowRoot clonedNode) (assignedNodes clonedNode) (contentBody clonedNode)), w')"
  using assms
  by (simp add: embedWebFonts_def Let_def styleElementWith_def insertFirst_def appendChild_def)

subsection \<open>The filter and the order of the children\<close>

lemma cloneNode_rejected:
  "rejected opts n \<Longrightarrow> cloneNode h opts False n w = (Inr None, w)"
  by (simp add: cloneNode.simps)

lemma cloneNode_root_cloned: "fst (cloneNode h opts True n w) \<noteq> Inr None"
  by (simp add: cloneNode.simps split: prod.splits sum.splits)

lemma cloneEach_skips_rejected:
  assumes "rejected opts B"
      and "cloneNode h opts False A w = (Inr (Some a), w1)"
      and "cloneNode h opts False C w1 = (Inr (Some c), w2)"
  shows "cloneEach h opts [A, B, C] clonedNode w
           = (Inr (appendChild (appendChild clonedNode a) c), w2)"
  using assms by (simp add: cloneNode_rejected)

lemma childrenOf_own:
  assumes "\<not> isSlotElement n" and "iface (data n) \<noteq> HTMLIFrameElement" and "shadowRoot n = None"
  shows "childrenOf n = childNodes n"
  using assms by (simp add: childrenOf_def)

lemma childNodes_cloneCSSStyle: "childNodes (cloneCSSStyle h n c) = childNodes c"
  by (simp add: cloneCSSStyle_def set_style_def Let_def split: option.splits)

lemma childNodes_clonePseudoElement:
  "\<exists>extra. childNodes (fst (clonePseudoElement h n c ps w)) = childNodes c @ extra
      \<and> (\<forall>x \<in> set extra. iface (data x) = HTMLStyleElement)
      \<and> length extra \<le> 1
      \<and> (no_content n ps \<longrightarrow> extra = [])"
  by (auto simp: clonePseudoElement_def Let_def appendChild_def set_className_def createElement_def
        blank_data_def no_content_def split: prod.splits)

lemma childNodes_clonePseudoElements:
  "\<exists>extra. childNodes (fst (clonePseudoElements h n c w)) = childNodes c @ extra
      \<and> (\<forall>x \<in> set extra. iface (data x) = HTMLStyleElement)
      \<and> length extra \<le> 2
      \<and> (no_content n BEFORE \<and> no_content n AFTER \<longrightarrow> extra = [])"
proof -
  obtain c1 w1 where s1: "clonePseudoElement h n c BEFORE w = (c1, w1)" by (cases "clonePseudoElement h n c BEFORE w")
  obtain e1 where e1: "childNodes c1 = childNodes c @ e1"
      "\<forall>x \<in> set e1. iface (data x) = HTMLStyleElement" "length e1 \<le> 1"
      "no_content n BEFORE \<longrightarrow> e1 = []"
    using childNodes_clonePseudoElement [of h n c BEFORE w] s1 by auto
  obtain e2 where e2: "childNodes (fst (clonePseudoElement h n c1 AFTER w1)) = childNodes c1 @ e2"
      "\<forall>x \<in> set e2. iface (data x) = HTMLStyleElement" "length e2 \<le> 1"
      "no_content n AFTER \<longrightarrow> e2 = []"
    using childNodes_clonePseudoElement [of h n c1 AFTER w1] by auto
  have "childNodes (fst (clonePseudoElements h n c w)) = childNodes c @ (e1 @ e2)"
    using s1 e1(1) e2(1) by (simp add: clonePseudoElements_def)
  moreover have "\<forall>x \<in> set (e1 @ e2). iface (data x) = HTMLStyleElement"
    using e1(2) e2(2) by auto
  moreover have "length (e1 @ e2) \<le> 2"
    using e1(3) e2(3) by simp
  moreover have "no_content n BEFORE \<and> no_content n AFTER \<longrightarrow> e1 @ e2 = []"
    using e1(4) e2(4) by simp
  ultimately show ?thesis by blast
qed

text \<open>\<open>decorate\<close> on the clone of a node that is neither a text area nor a select: the
  children stay, and only the style elements of the generated content are appended.\<close>

lemma childNodes_decorate:
  assumes "iface (data n) \<noteq> HTMLTextAreaElement" and "iface (data n) \<noteq> HTMLSelectElement"
  shows "\<exists>extra. childNodes (fst (decorate h n c w)) = childNodes c @ extra
      \<and> (\<forall>x \<in> set extra. iface (data x) = HTMLStyleElement)
      \<and> length extra \<le> 2
      \<and> (no_content n BEFORE \<and> no_content n AFTER \<longrightarrow> extra = [])"
proof (cases "iface (data c) = TextNode")
  case True
  then have "fst (decorate h n c w) = c" by (simp add: decorate_def)
  then show ?thesis by simp
next
  case False
  have "childNodes (fst (decorate h n c w))
          = childNodes (fst (clonePseudoElements h n (cloneCSSStyle h n c) w))"
    using assms False
    by (simp add: decorate_def Let_def cloneInputValue_def cloneSelectValue_def setAttribute_def
          split: prod.splits)
  then show ?thesis
    using childNodes_clonePseudoElements [of h n "cloneCSSStyle h n c" w]
    by (simp add: childNodes_cloneCSSStyle)
qed

lemma childNodes_ensureSVGSymbols:
  assumes "ensureSVGSymbols h c opts w = (Inr c', w')"
  shows "\<exists>defs. fst (processedDefs h c opts w) = Inr defs
      \<and> childNodes c' = childNodes c @ (if defs = [] then [] else [hiddenSvg defs])"
proof -
  obtain r w1 where p: "processedDefs h c opts w = (r, w1)"
    by (cases "processedDefs h c opts w")
  show ?thesis
  proof (cases r)
    case (Inl e)
    with assms p show ?thesis by (simp add: ensureSVGSymbols_def)
  next
    case (Inr nodes)
    with assms p have "c' = (if nodes = [] then c else appendChild c (hiddenSvg nodes))"
      by (simp add: ensureSVGSymbols_def split: if_splits)
    then have "childNodes c' = childNodes c @ (if nodes = [] then [] else [hiddenSvg nodes])"
      by (simp add: appendChild_def)
    moreover have "fst (processedDefs h c opts w) = Inr nodes"
      using p Inr by simp
    ultimately show ?thesis by (intro exI [of _ nodes] conjI)
  qed
qed


text \<open>A slot element is different: its children are the nodes assigned to it, so with
  nothing assigned none of its own children is cloned.\<close>

lemma cloneChildren_empty_slot:
  assumes "isSlotElement n" and "assignedNodes n = Some []"
  shows "cloneChildren h opts n c w = (Inr c, w)"
  using assms by (simp add: cloneChildren.simps childrenOf_def)

lemma cloneNode_text:
  assumes "\<not> rejected opts (createTextNode s)"
  shows "cloneNode host_ok opts isRoot (createTextNode s) w = (Inr (Some (createTextNode s)), w)"
proof -
  have i: "iface (data (createTextNode s)) = TextNode"
    by (simp add: createTextNode_def blank_data_def)
  have sh: "shallowClone (createTextNode s) = createTextNode s"
    by (simp add: shallowClone_def createTextNode_def)
  have ch: "childrenOf (createTextNode s) = []"
    by (simp add: childrenOf_def createTextNode_def)
  have pd: "processedDefs host_ok = (\<lambda>n opts w. (Inr [], w))"
    by (simp add: host_ok_def)
  show ?thesis
    using assms
    by (subst cloneNode.simps)
       (simp add: cloneSingleNode.simps cloneChildren.simps i sh ch decorate_def
          ensureSVGSymbols_def pd)
qed

lemma reject_B_texts:
  "\<not> rejected reject_B text_A" "rejected reject_B text_B" "\<not> rejected reject_B text_C"
  by (simp_all add: rejected_def reject_B_def text_A_def text_B_def text_C_def createTextNode_def
        blank_data_def)

lemma clone_text_A: "cloneNode host_ok reject_B False text_A world0 = (Inr (Some text_A), world0)"
  using cloneNode_text [of reject_B "''A''" False world0] reject_B_texts(1)
  by (simp add: text_A_def)

lemma clone_text_C: "cloneNode host_ok reject_B False text_C world0 = (Inr (Some text_C), world0)"
  using cloneNode_text [of reject_B "''C''" False world0] reject_B_texts(3)
  by (simp add: text_C_def)



end
